theory Spec2Isabelle
  imports Main "HOL-Library.Word"
begin

section \<open>ChatWidget.jsx: data model\<close>

text \<open>
  A JavaScript string is a sequence of UTF-16 code units. The literals of the component
  are Korean; every character of them lies in the Basic Multilingual Plane, so each is one
  code unit, written here as a hexadecimal numeral.
\<close>

type_synonym jsstring = "16 word list"

definition of_ascii :: "string \<Rightarrow> jsstring" where
  "of_ascii s = map of_char s"

text \<open>
  \<^verbatim>\<open>String.prototype.trim\<close> removes WhiteSpace and LineTerminator code points from both
  ends: TAB, LF, VT, FF, CR, SP, NBSP, U+1680, U+2000..U+200A, U+2028, U+2029, U+202F,
  U+205F, U+3000 and U+FEFF.
\<close>

definition is_js_space :: "16 word \<Rightarrow> bool" where
  "is_js_space c \<longleftrightarrow>
     c \<in> {0x09, 0x0A, 0x0B, 0x0C, 0x0D, 0x20, 0xA0, 0x1680, 0x2028, 0x2029, 0x202F,
          0x205F, 0x3000, 0xFEFF} \<or> (0x2000 \<le> c \<and> c \<le> 0x200A)"

definition trim :: "jsstring \<Rightarrow> jsstring" where
  "trim s = rev (dropWhile is_js_space (rev (dropWhile is_js_space s)))"

text \<open>
  A row of the \<^verbatim>\<open>messages\<close> table as the store returns it. The id is assigned by the
  store: a number or a string, \<open>None\<close> when the property is absent (\<^verbatim>\<open>undefined\<close>).
  The timestamp of a row is the ISO-8601 string of the wire format.
\<close>

datatype jsval = Num int | Str jsstring

record message =
  msg_id :: "jsval option"
  msg_text :: jsstring
  msg_sender :: jsstring
  msg_timestamp :: jsstring

text \<open>
  The object handed to \<^verbatim>\<open>insert\<close>: text, sender and the \<^verbatim>\<open>Date\<close> of creation
  (milliseconds of the logical clock; the source serialises it with
  \<^verbatim>\<open>toISOString\<close>). No id is passed.
\<close>

record row =
  row_text :: jsstring
  row_sender :: jsstring
  row_timestamp :: nat

text \<open>The five \<^verbatim>\<open>useState\<close> cells of the component, with their initial values.\<close>

record chat_state =
  messages :: "message list"
  inputValue :: jsstring
  isOpen :: bool
  loading :: bool
  error :: "jsstring option"

definition initial_state :: chat_state where
  "initial_state =
     \<lparr>messages = [], inputValue = [], isOpen = False, loading = True, error = None\<rparr>"

text \<open>\<^verbatim>\<open>!!error\<close>: \<^verbatim>\<open>null\<close> and the empty string are falsy, every other string is truthy.\<close>

definition truthy :: "jsstring option \<Rightarrow> bool" where
  "truthy e = (case e of None \<Rightarrow> False | Some s \<Rightarrow> s \<noteq> [])"

definition MESSAGES_TABLE :: string where
  "MESSAGES_TABLE = ''messages''"

section \<open>The realtime callback\<close>

text \<open>
  Lines 78 to 84, the updater passed to \<^verbatim>\<open>setMessages\<close>:
  \<^verbatim>\<open>prevMessages.find(msg => msg.id === payload.new.id)\<close> returns the first element with a
  strictly equal id (an object, hence truthy) or \<^verbatim>\<open>undefined\<close>. Two absent ids are
  strictly equal.
\<close>

definition onRemoteInsert :: "message list \<Rightarrow> message \<Rightarrow> message list" where
  "onRemoteInsert prevMessages new =
     (case find (\<lambda>msg. msg_id msg = msg_id new) prevMessages of
        Some _ \<Rightarrow> prevMessages
      | None \<Rightarrow> prevMessages @ [new])"

section \<open>Fetching the history\<close>

text \<open>
  What the awaited query gives: it resolves to \<^verbatim>\<open>{ data, error }\<close> (each possibly
  \<^verbatim>\<open>null\<close>; an error object is truthy), or it throws.
\<close>

datatype pg_error = PgError jsstring

datatype fetch_response = FetchResolved "message list option" "pg_error option" | FetchThrown

datatype save_response = SaveResolved "pg_error option" | SaveThrown

datatype log = Error_fetching | Unexpected_error_fetching | Error_saving | Unexpected_error_saving

text \<open>The two messages of \<^verbatim>\<open>setError\<close>, lines 46 and 53.\<close>

definition fetch_failed_text :: jsstring where
  "fetch_failed_text =
     [0xCC44, 0xD305, 0x0020, 0xAE30, 0xB85D, 0xC744, 0x0020, 0xBD88, 0xB7EC, 0xC624, 0xB294,
      0x0020, 0xB370, 0x0020, 0xC2E4, 0xD328, 0xD588, 0xC2B5, 0xB2C8, 0xB2E4, 0x002E]"

definition fetch_unexpected_text :: jsstring where
  "fetch_unexpected_text =
     [0xC54C, 0x0020, 0xC218, 0x0020, 0xC5C6, 0xB294, 0x0020, 0xC624, 0xB958, 0xB85C, 0x0020,
      0xCC44, 0xD305, 0x0020, 0xAE30, 0xB85D, 0xC744, 0x0020, 0xBD88, 0xB7EC, 0xC62C, 0x0020,
      0xC218, 0x0020, 0xC5C6, 0xC2B5, 0xB2C8, 0xB2E4, 0x002E]"

text \<open>
  \<^verbatim>\<open>fetchMessages\<close> up to its \<^verbatim>\<open>await\<close> (lines 36 and 37; the query of lines 39 to 42 is
  issued by the caller below), and from the \<^verbatim>\<open>await\<close> on (lines 44 to 56).
\<close>

definition fetchMessages_start :: "chat_state \<Rightarrow> chat_state" where
  "fetchMessages_start st = st\<lparr>loading := True, error := None\<rparr>"

definition fetchMessages_settle :: "fetch_response \<Rightarrow> chat_state \<Rightarrow> chat_state \<times> log list" where
  "fetchMessages_settle r st =
     (case r of
        FetchResolved data (Some fetchError) \<Rightarrow>
          (st\<lparr>error := Some fetch_failed_text, messages := [], loading := False\<rparr>,
           [Error_fetching])
      | FetchResolved data None \<Rightarrow>
          (st\<lparr>messages := (case data of Some d \<Rightarrow> d | None \<Rightarrow> []), loading := False\<rparr>, [])
      | FetchThrown \<Rightarrow>
          (st\<lparr>error := Some fetch_unexpected_text, messages := [], loading := False\<rparr>,
           [Unexpected_error_fetching]))"

section \<open>Saving and sending\<close>

text \<open>
  \<^verbatim>\<open>saveMessageToSupabase\<close> after its \<^verbatim>\<open>await\<close>: an error of the insert, and anything
  thrown, is logged and nothing else; the function returns normally in every case.
\<close>

definition saveMessageToSupabase_settle :: "save_response \<Rightarrow> log list" where
  "saveMessageToSupabase_settle r =
     (case r of
        SaveResolved (Some saveError) \<Rightarrow> [Error_saving]
      | SaveResolved None \<Rightarrow> []
      | SaveThrown \<Rightarrow> [Unexpected_error_saving])"

definition user_sender :: jsstring where
  "user_sender = of_ascii ''user''"

definition bot_sender :: jsstring where
  "bot_sender = of_ascii ''bot''"

text \<open>
  The template literal of line 157: a double quote, the captured input, then a double
  quote, a space and the fixed Korean sentence.
\<close>

definition bot_suffix :: jsstring where
  "bot_suffix =
     [0x0022, 0x0020, 0xB77C, 0xACE0, 0x0020, 0xC785, 0xB825, 0xD558, 0xC168, 0xC2B5, 0xB2C8,
      0xB2E4, 0x002E, 0x0020, 0xC800, 0xB294, 0x0020, 0xACE0, 0xC804, 0xC801, 0xC778, 0x0020,
      0xBD07, 0xC785, 0xB2C8, 0xB2E4, 0x002E]"

definition bot_text :: "jsstring \<Rightarrow> jsstring" where
  "bot_text currentInput = [0x0022] @ currentInput @ bot_suffix"

definition botResponse :: "jsstring \<Rightarrow> nat \<Rightarrow> row" where
  "botResponse currentInput date =
     \<lparr>row_text = bot_text currentInput, row_sender = bot_sender, row_timestamp = date\<rparr>"

text \<open>
  \<^verbatim>\<open>handleSendMessage\<close> up to its \<^verbatim>\<open>await\<close> (lines 137 to 150): \<open>None\<close> is the early
  return of line 138, otherwise the user message to save and the trimmed input.
\<close>

definition handleSendMessage_start :: "chat_state \<Rightarrow> nat \<Rightarrow> (row \<times> jsstring) option" where
  "handleSendMessage_start st date =
     (let trimmedInput = trim (inputValue st) in
      if trimmedInput = [] then None
      else Some (\<lparr>row_text = trimmedInput, row_sender = user_sender, row_timestamp = date\<rparr>,
                 trimmedInput))"

text \<open>Line 152, run once the awaited save has returned.\<close>

definition handleSendMessage_resume :: "chat_state \<Rightarrow> chat_state" where
  "handleSendMessage_resume st = st\<lparr>inputValue := []\<rparr>"

definition handleInputChange :: "jsstring \<Rightarrow> chat_state \<Rightarrow> chat_state" where
  "handleInputChange v st = st\<lparr>inputValue := v\<rparr>"

section \<open>Rendering\<close>

text \<open>
  The formatting of a time is the runtime's (\<^verbatim>\<open>Date.prototype.toLocaleTimeString\<close>);
  the model keeps the call as it is written: the date it is applied to, which is
  \<^verbatim>\<open>new Date()\<close> or \<^verbatim>\<open>new Date(msg.timestamp)\<close>, and the options it is given.
\<close>

datatype date = Current nat | Parsed jsstring

record time_opts =
  hour12 :: bool
  hour :: string
  minute :: string

datatype piece = Lit jsstring | ToLocaleTimeString date time_opts

definition clock_opts :: time_opts where
  "clock_opts = \<lparr>hour12 = False, hour = ''2-digit'', minute = ''2-digit''\<rparr>"

text \<open>The template literal of lines 206 and 228: the formatted time in parentheses.\<close>

definition time_span :: "date \<Rightarrow> piece list" where
  "time_span d = [Lit (of_ascii ''(''), ToLocaleTimeString d clock_opts, Lit (of_ascii '')'')]"

text \<open>
  One \<^verbatim>\<open>div.message-entry\<close>: the React key when one is given, the sender span (class name
  and label) when there is one, the text, and the timestamp span when there is one.
\<close>

record entry =
  entry_key :: "jsval option"
  sender_span :: "(string \<times> jsstring) option"
  entry_text :: jsstring
  timestamp_span :: "piece list option"

definition loading_text :: jsstring where
  "loading_text =
     [0xCC44, 0xD305, 0x0020, 0xAE30, 0xB85D, 0xC744, 0x0020, 0xBD88, 0xB7EC, 0xC624, 0xB294,
      0x0020, 0xC911, 0xC785, 0xB2C8, 0xB2E4, 0x002E, 0x002E, 0x002E]"

definition greeting_text :: jsstring where
  "greeting_text =
     [0xC548, 0xB155, 0xD558, 0xC138, 0xC694, 0x0021, 0x0020, 0xACE0, 0xC804, 0x0020, 0xC2A4,
      0xD0C0, 0xC77C, 0x0020, 0xCC44, 0xD305, 0x0020, 0xC704, 0xC82F, 0xC785, 0xB2C8, 0xB2E4,
      0x002E, 0x0020, 0xBB34, 0xC5C7, 0xC744, 0x0020, 0xB3C4, 0xC640, 0xB4DC, 0xB9B4, 0xAE4C,
      0xC694, 0x003F]"

text \<open>The labels of lines 195, 203 and 224: U+B098 and U+BD07, each followed by a colon.\<close>

definition user_label :: jsstring where
  "user_label = [0xB098, 0x003A]"

definition bot_label :: jsstring where
  "bot_label = [0xBD07, 0x003A]"

definition bot_span :: "string \<times> jsstring" where
  "bot_span = (''message-sender-bot'', bot_label)"

definition user_span :: "string \<times> jsstring" where
  "user_span = (''message-sender-user'', user_label)"

text \<open>
  The key of line 216, \<^verbatim>\<open>msg.id || `${msg.sender}-${msg.text}-${msg.timestamp}`\<close>: an
  absent id, the number 0 and the empty string are falsy.
\<close>

definition id_truthy :: "jsval option \<Rightarrow> bool" where
  "id_truthy v = (case v of None \<Rightarrow> False | Some (Num n) \<Rightarrow> n \<noteq> 0 | Some (Str s) \<Rightarrow> s \<noteq> [])"

definition fallback_key :: "message \<Rightarrow> jsstring" where
  "fallback_key msg =
     msg_sender msg @ of_ascii ''-'' @ msg_text msg @ of_ascii ''-'' @ msg_timestamp msg"

definition message_key :: "message \<Rightarrow> jsval" where
  "message_key msg = (if id_truthy (msg_id msg) then the (msg_id msg) else Str (fallback_key msg))"

definition message_entry :: "message \<Rightarrow> entry" where
  "message_entry msg =
     \<lparr>entry_key = Some (message_key msg),
      sender_span = Some (if msg_sender msg = user_sender then user_span else bot_span),
      entry_text = msg_text msg,
      timestamp_span = Some (time_span (Parsed (msg_timestamp msg)))\<rparr>"

definition loading_entry :: entry where
  "loading_entry =
     \<lparr>entry_key = None, sender_span = None, entry_text = loading_text, timestamp_span = None\<rparr>"

definition error_entry :: "jsstring \<Rightarrow> entry" where
  "error_entry e =
     \<lparr>entry_key = None, sender_span = Some bot_span, entry_text = e, timestamp_span = None\<rparr>"

definition greeting_entry :: "nat \<Rightarrow> entry" where
  "greeting_entry t =
     \<lparr>entry_key = None, sender_span = Some bot_span, entry_text = greeting_text,
      timestamp_span = Some (time_span (Current t))\<rparr>"

text \<open>\<^verbatim>\<open>renderMessages\<close>, lines 184 to 236, rendered at time \<open>t\<close>.\<close>

definition renderMessages :: "chat_state \<Rightarrow> nat \<Rightarrow> entry list" where
  "renderMessages st t =
     (if loading st then [loading_entry]
      else if truthy (error st) then [error_entry (the (error st))]
      else if length (messages st) = 0 then [greeting_entry t]
      else map message_entry (messages st))"

text \<open>
  The returned tree, lines 238 to 290: the open button alone while closed; while open the
  close button, the message area, the text input and the send button with their
  \<^verbatim>\<open>disabled\<close> attributes.
\<close>

record chat_window =
  messages_area :: "entry list"
  input_value :: jsstring
  input_disabled :: bool
  send_disabled :: bool

datatype view = Collapsed | Expanded chat_window

definition render :: "chat_state \<Rightarrow> nat \<Rightarrow> view" where
  "render st t =
     (if \<not> isOpen st then Collapsed
      else Expanded
        \<lparr>messages_area = renderMessages st t,
         input_value = inputValue st,
         input_disabled = (loading st \<or> truthy (error st)),
         send_disabled = (trim (inputValue st) = [] \<or> loading st \<or> truthy (error st))\<rparr>)"

section \<open>The component in its event loop\<close>

text \<open>
  Everything the component does outside its own state: the calls on the Supabase client,
  each with the logical time (in milliseconds) at which it is issued. A query names the
  table, the columns, the column to order by and whether ascending; an insert the table
  and the row; a subscription the channel, the event, the schema and the table, and yields
  the handle that \<^verbatim>\<open>removeChannel\<close> is given later.
\<close>

datatype call =
  Select string string string bool
| Insert string row
| Subscribe string string string string nat
| RemoveChannel nat

text \<open>
  The component between two events: its state, the logical clock, the calls issued so
  far, the console, the number of queries awaiting their answer, the inserts awaiting
  theirs (\<open>Some currentInput\<close> when \<^verbatim>\<open>handleSendMessage\<close> is suspended on it, \<open>None\<close> when
  the timer callback is), the pending \<^verbatim>\<open>setTimeout\<close> callbacks with their due time
  and captured input, the channels whose callback is registered, the next channel handle,
  and for the effect of lines 68 to 98 the value of \<^verbatim>\<open>isOpen\<close> at its last run and the
  channel its cleanup function will remove.
\<close>

record world =
  ui :: chat_state
  clock :: nat
  calls :: "(nat \<times> call) list"
  console :: "log list"
  fetches :: nat
  saves :: "jsstring option list"
  timers :: "(nat \<times> jsstring) list"
  channels :: "nat list"
  next_channel :: nat
  effect_deps :: "bool option"
  cleanup :: "nat option"

definition unmounted :: world where
  "unmounted =
     \<lparr>ui = initial_state, clock = 0, calls = [], console = [], fetches = 0, saves = [],
      timers = [], channels = [], next_channel = 0, effect_deps = None, cleanup = None\<rparr>"

text \<open>\<^verbatim>\<open>fetchMessages\<close>, lines 35 to 42: the two setters, then the query is issued.\<close>

definition fetchMessages :: "world \<Rightarrow> world" where
  "fetchMessages w =
     w\<lparr>ui := fetchMessages_start (ui w),
       calls := calls w @ [(clock w, Select MESSAGES_TABLE ''*'' ''timestamp'' True)],
       fetches := Suc (fetches w)\<rparr>"

text \<open>The answer of a query arrives: lines 44 to 56 run. No call is issued.\<close>

definition fetch_settled :: "fetch_response \<Rightarrow> world \<Rightarrow> world" where
  "fetch_settled r w =
     (if fetches w = 0 then w
      else w\<lparr>ui := fst (fetchMessages_settle r (ui w)),
             console := console w @ snd (fetchMessages_settle r (ui w)),
             fetches := fetches w - 1\<rparr>)"

text \<open>Lines 72 to 87: a channel is created and subscribed; line 91 removes it.\<close>

definition subscribe :: "world \<Rightarrow> world" where
  "subscribe w =
     w\<lparr>calls := calls w @
         [(clock w, Subscribe ''chat-messages'' ''INSERT'' ''public'' MESSAGES_TABLE (next_channel w))],
       channels := channels w @ [next_channel w],
       next_channel := Suc (next_channel w),
       cleanup := Some (next_channel w)\<rparr>"

definition removeChannel :: "nat \<Rightarrow> world \<Rightarrow> world" where
  "removeChannel h w =
     w\<lparr>calls := calls w @ [(clock w, RemoveChannel h)], channels := removeAll h (channels w)\<rparr>"

text \<open>
  \<^verbatim>\<open>useEffect(..., [isOpen, fetchMessages])\<close>, lines 68 to 98, as React runs it after a
  render: \<^verbatim>\<open>fetchMessages\<close> is a stable callback, so the effect is skipped when
  \<^verbatim>\<open>isOpen\<close> is what it was at the last run; otherwise the cleanup function of the last
  run is called, if it returned one, and the body runs.
\<close>

definition open_effect :: "world \<Rightarrow> world" where
  "open_effect w =
     (if effect_deps w = Some (isOpen (ui w)) then w
      else
        let w1 = (case cleanup w of None \<Rightarrow> w | Some h \<Rightarrow> (removeChannel h w)\<lparr>cleanup := None\<rparr>);
            w2 = (if isOpen (ui w1) then subscribe (fetchMessages w1) else w1)
        in w2\<lparr>effect_deps := Some (isOpen (ui w))\<rparr>)"

definition mounted :: world where
  "mounted = open_effect unmounted"

text \<open>
  \<^verbatim>\<open>setIsOpen\<close> with a functional update, followed by the render and its effects;
  \<^verbatim>\<open>toggleChat\<close> (line 180) is the only caller.
\<close>

definition setIsOpen :: "(bool \<Rightarrow> bool) \<Rightarrow> world \<Rightarrow> world" where
  "setIsOpen f w = open_effect (w\<lparr>ui := (ui w)\<lparr>isOpen := f (isOpen (ui w))\<rparr>\<rparr>)"

definition toggleChat :: "world \<Rightarrow> world" where
  "toggleChat w = setIsOpen (\<lambda>prevIsOpen. \<not> prevIsOpen) w"

text \<open>
  \<^verbatim>\<open>saveMessageToSupabase\<close> up to its \<^verbatim>\<open>await\<close>, lines 113 to 121: the insert of the
  text, the sender and the timestamp of the message is issued, and the caller, \<open>k\<close>, is
  suspended until the answer arrives.
\<close>

definition saveMessageToSupabase :: "row \<Rightarrow> jsstring option \<Rightarrow> world \<Rightarrow> world" where
  "saveMessageToSupabase messageToSave k w =
     w\<lparr>calls := calls w @ [(clock w, Insert MESSAGES_TABLE messageToSave)],
       saves := saves w @ [k]\<rparr>"

text \<open>
  \<^verbatim>\<open>handleSendMessage\<close> up to the \<^verbatim>\<open>await\<close> of line 150: the user message is handed
  to \<^verbatim>\<open>saveMessageToSupabase\<close> and the handler is suspended on it.
\<close>

definition handleSendMessage :: "world \<Rightarrow> world" where
  "handleSendMessage w =
     (case handleSendMessage_start (ui w) (clock w) of
        None \<Rightarrow> w
      | Some (userMessage, currentInput) \<Rightarrow>
          saveMessageToSupabase userMessage (Some currentInput) w)"

text \<open>
  The answer of the \<open>i\<close>-th pending insert arrives. \<^verbatim>\<open>saveMessageToSupabase\<close> logs and
  returns; a suspended \<^verbatim>\<open>handleSendMessage\<close> goes on with lines 151 to 163: it clears
  the input and sets the timer of 1000 ms.
\<close>

definition save_settled :: "nat \<Rightarrow> save_response \<Rightarrow> world \<Rightarrow> world" where
  "save_settled i r w =
     (if i < length (saves w) then
        let w1 = w\<lparr>saves := take i (saves w) @ drop (Suc i) (saves w),
                   console := console w @ saveMessageToSupabase_settle r\<rparr>
        in (case saves w ! i of
              None \<Rightarrow> w1
            | Some currentInput \<Rightarrow>
                w1\<lparr>ui := handleSendMessage_resume (ui w1),
                   timers := timers w1 @ [(clock w1 + 1000, currentInput)]\<rparr>)
      else w)"

text \<open>
  The timer callback, lines 155 to 163, run at its due time (at once when that time has
  passed): it hands the bot message to \<^verbatim>\<open>saveMessageToSupabase\<close> and is suspended on it.
\<close>

definition timer_callback :: "world \<Rightarrow> nat \<times> jsstring \<Rightarrow> world" where
  "timer_callback w t =
     (let date = max (clock w) (fst t) in
      saveMessageToSupabase (botResponse (snd t) date) None (w\<lparr>clock := date\<rparr>))"

text \<open>
  Time passes: the callbacks that fall due run, each at its due time, in the order in
  which they were set (every delay is 1000 ms, so that is the order of their due times).
\<close>

definition elapse :: "nat \<Rightarrow> world \<Rightarrow> world" where
  "elapse dt w =
     (foldl timer_callback
        (w\<lparr>timers := filter (\<lambda>t. \<not> fst t \<le> clock w + dt) (timers w)\<rparr>)
        (filter (\<lambda>t. fst t \<le> clock w + dt) (timers w)))\<lparr>clock := clock w + dt\<rparr>"

text \<open>
  The store pushes an inserted row: the callback of every subscribed channel runs the
  updater of lines 78 to 84.
\<close>

definition remote_insert :: "message \<Rightarrow> world \<Rightarrow> world" where
  "remote_insert new w =
     w\<lparr>ui := foldl (\<lambda>st h. st\<lparr>messages := onRemoteInsert (messages st) new\<rparr>) (ui w) (channels w)\<rparr>"

datatype event =
  Elapse nat
| ToggleChat
| InputChange jsstring
| SendMessage
| FetchSettled fetch_response
| SaveSettled nat save_response
| RemoteInsert message

definition handle :: "event \<Rightarrow> world \<Rightarrow> world" where
  "handle e w =
     (case e of
        Elapse dt \<Rightarrow> elapse dt w
      | ToggleChat \<Rightarrow> toggleChat w
      | InputChange v \<Rightarrow> w\<lparr>ui := handleInputChange v (ui w)\<rparr>
      | SendMessage \<Rightarrow> handleSendMessage w
      | FetchSettled r \<Rightarrow> fetch_settled r w
      | SaveSettled i r \<Rightarrow> save_settled i r w
      | RemoteInsert new \<Rightarrow> remote_insert new w)"

text \<open>After every event React renders and runs the effects whose dependencies changed.\<close>

definition step :: "world \<Rightarrow> event \<Rightarrow> world" where
  "step w e = open_effect (handle e w)"

definition run :: "world \<Rightarrow> event list \<Rightarrow> world" where
  "run w es = foldl step w es"

section \<open>Notions used to state the properties\<close>

text \<open>The events through which the store hands rows to the component.\<close>

fun store_delivery :: "event \<Rightarrow> bool" where
  "store_delivery (RemoteInsert new) = True"
| "store_delivery (FetchSettled r) = True"
| "store_delivery e = False"

fun is_select :: "call \<Rightarrow> bool" where
  "is_select (Select table cols col asc) = True"
| "is_select c = False"

fun is_subscribe :: "call \<Rightarrow> bool" where
  "is_subscribe (Subscribe name ev schema table h) = True"
| "is_subscribe c = False"

fun is_remove :: "call \<Rightarrow> bool" where
  "is_remove (RemoveChannel h) = True"
| "is_remove c = False"

definition count_calls :: "(call \<Rightarrow> bool) \<Rightarrow> world \<Rightarrow> nat" where
  "count_calls P w = length (filter P (map snd (calls w)))"

text \<open>
  What holds between events once the component is mounted: the effect has run for the
  current \<^verbatim>\<open>isOpen\<close>; while open the one channel created last is subscribed and is the
  one the cleanup will remove, while closed there is none; every channel was created
  together with one query, and every channel no longer subscribed was removed once.
\<close>

definition lifecycle_inv :: "world \<Rightarrow> bool" where
  "lifecycle_inv w \<longleftrightarrow>
     effect_deps w = Some (isOpen (ui w))
     \<and> cleanup w = (if isOpen (ui w) then Some (next_channel w - 1) else None)
     \<and> channels w = (if isOpen (ui w) then [next_channel w - 1] else [])
     \<and> (isOpen (ui w) \<longrightarrow> 0 < next_channel w)
     \<and> count_calls is_select w = next_channel w
     \<and> count_calls is_subscribe w = next_channel w
     \<and> count_calls is_remove w + length (channels w) = next_channel w"

text \<open>
  A submission followed to its end: the handler runs, the answer \<open>r\<close> of its insert
  arrives \<open>d\<close> ms later, and \<open>dt\<close> more ms pass.
\<close>

definition send_and_wait :: "world \<Rightarrow> nat \<Rightarrow> save_response \<Rightarrow> nat \<Rightarrow> world" where
  "send_and_wait w d r dt =
     elapse dt (save_settled (length (saves w)) r (elapse d (handleSendMessage w)))"

text \<open>
  The call that the timer callback issues when it runs at the due time of its timer, and
  what holds of the pending timers between events: they are in the order of their due
  times, none is overdue, and none is due more than 1000 ms ahead.
\<close>

definition bot_reply_call :: "nat \<times> jsstring \<Rightarrow> nat \<times> call" where
  "bot_reply_call t = (fst t, Insert MESSAGES_TABLE (botResponse (snd t) (fst t)))"

definition timer_inv :: "world \<Rightarrow> bool" where
  "timer_inv w \<longleftrightarrow>
     sorted (map fst (timers w))
     \<and> (\<forall>t\<in>set (timers w). clock w < fst t \<and> fst t \<le> clock w + 1000)"

text \<open>Sample inputs: two rows of the table, and an open widget holding a typed draft.\<close>

definition row_hi :: message where
  "row_hi =
     \<lparr>msg_id = Some (Num 1), msg_text = of_ascii ''hi'', msg_sender = of_ascii ''bot'',
      msg_timestamp = of_ascii ''T0''\<rparr>"

definition row_yo :: message where
  "row_yo =
     \<lparr>msg_id = Some (Num 2), msg_text = of_ascii ''yo'', msg_sender = of_ascii ''user'',
      msg_timestamp = of_ascii ''T1''\<rparr>"

definition typed_hello :: world where
  "typed_hello =
     run mounted
       [ToggleChat, FetchSettled (FetchResolved (Some [row_hi]) None),
        InputChange (of_ascii '' hello '')]"

text \<open>
  The same widget closed and opened again, the draft still in the input and the history
  loading; and that widget once the query has thrown.
\<close>

definition reopened_hello :: world where
  "reopened_hello = run typed_hello [ToggleChat, ToggleChat]"

definition failed_hello :: world where
  "failed_hello = run reopened_hello [FetchSettled FetchThrown]"

text \<open>
  The widget 400 ms after the draft \<^verbatim>\<open>hello\<close> was sent and saved, its reply still
  pending, with a second draft typed.
\<close>

definition typed_yo :: world where
  "typed_yo =
     run mounted
       [ToggleChat, FetchSettled (FetchResolved (Some [row_hi]) None),
        InputChange (of_ascii '' hello ''), SendMessage, SaveSettled 0 (SaveResolved None),
        InputChange (of_ascii ''yo''), Elapse 400]"

section \<open>Auxiliary facts\<close>

lemmas model_defs =
  run_def step_def handle_def mounted_def unmounted_def initial_state_def open_effect_def
  toggleChat_def setIsOpen_def fetchMessages_def fetchMessages_start_def fetch_settled_def
  fetchMessages_settle_def subscribe_def removeChannel_def handleInputChange_def
  handleSendMessage_def handleSendMessage_start_def handleSendMessage_resume_def
  saveMessageToSupabase_def save_settled_def saveMessageToSupabase_settle_def
  timer_callback_def elapse_def remote_insert_def onRemoteInsert_def send_and_wait_def
  botResponse_def bot_text_def user_sender_def bot_sender_def MESSAGES_TABLE_def trim_def
  is_js_space_def of_ascii_def truthy_def Let_def

lemma typed_hello_eq:
  "typed_hello =
     \<lparr>ui = \<lparr>messages = [row_hi], inputValue = of_ascii '' hello '', isOpen = True,
             loading = False, error = None\<rparr>,
      clock = 0,
      calls = [(0, Select ''messages'' ''*'' ''timestamp'' True),
               (0, Subscribe ''chat-messages'' ''INSERT'' ''public'' ''messages'' 0)],
      console = [], fetches = 0, saves = [], timers = [], channels = [0], next_channel = 1,
      effect_deps = Some True, cleanup = Some 0\<rparr>"
  by (simp add: typed_hello_def model_defs)

lemma typed_yo_eq:
  "typed_yo =
     \<lparr>ui = \<lparr>messages = [row_hi], inputValue = of_ascii ''yo'', isOpen = True,
             loading = False, error = None\<rparr>,
      clock = 400,
      calls = [(0, Select ''messages'' ''*'' ''timestamp'' True),
               (0, Subscribe ''chat-messages'' ''INSERT'' ''public'' ''messages'' 0),
               (0, Insert ''messages''
                  \<lparr>row_text = of_ascii ''hello'', row_sender = of_ascii ''user'',
                   row_timestamp = 0\<rparr>)],
      console = [], fetches = 0, saves = [], timers = [(1000, of_ascii ''hello'')],
      channels = [0], next_channel = 1, effect_deps = Some True, cleanup = Some 0\<rparr>"
  by (simp add: typed_yo_def model_defs)

lemma trim_hello: "trim (of_ascii '' hello '') = of_ascii ''hello''"
  by (simp add: trim_def is_js_space_def of_ascii_def)

subsection \<open>The updater of the realtime callback\<close>

lemma onRemoteInsert_iff:
  "onRemoteInsert ms new = (if msg_id new \<in> msg_id ` set ms then ms else ms @ [new])"
proof (cases "find (\<lambda>msg. msg_id msg = msg_id new) ms")
  case None
  then have "msg_id new \<notin> msg_id ` set ms"
    by (auto simp: find_None_iff)
  with None show ?thesis
    by (simp add: onRemoteInsert_def)
next
  case (Some a)
  then have "msg_id new \<in> msg_id ` set ms"
    by (auto simp: find_Some_iff image_iff) (metis nth_mem)
  with Some show ?thesis
    by (simp add: onRemoteInsert_def)
qed

lemma onRemoteInsert_distinct:
  "distinct (map msg_id ms) \<Longrightarrow> distinct (map msg_id (onRemoteInsert ms new))"
  by (simp add: onRemoteInsert_iff)

lemma deliver_distinct:
  "distinct (map msg_id ms) \<Longrightarrow> distinct (map msg_id (foldl onRemoteInsert ms evs))"
  by (induction evs arbitrary: ms) (simp_all add: onRemoteInsert_distinct)

lemma onRemoteInsert_twice:
  "onRemoteInsert (onRemoteInsert ms new) new = onRemoteInsert ms new"
  by (simp add: onRemoteInsert_iff)

lemma remote_updaters_distinct:
  "distinct (map msg_id (messages st)) \<Longrightarrow>
   distinct (map msg_id (messages
     (foldl (\<lambda>st h. st\<lparr>messages := onRemoteInsert (messages st) new\<rparr>) st hs)))"
  by (induction hs arbitrary: st) (simp_all add: onRemoteInsert_distinct)

subsection \<open>What each handler leaves alone\<close>

lemma open_effect_committed:
  "effect_deps w = Some (isOpen (ui w)) \<Longrightarrow> open_effect w = w"
  by (simp add: open_effect_def)

lemma messages_open_effect: "messages (ui (open_effect w)) = messages (ui w)"
  by (simp add: open_effect_def Let_def subscribe_def fetchMessages_def fetchMessages_start_def
      removeChannel_def split: option.splits)

lemma ui_timer_callbacks: "ui (foldl timer_callback w ts) = ui w"
  by (induction ts arbitrary: w)
    (simp_all add: timer_callback_def saveMessageToSupabase_def Let_def)

lemma messages_handleSendMessage: "messages (ui (handleSendMessage w)) = messages (ui w)"
  by (simp add: handleSendMessage_def saveMessageToSupabase_def split: option.splits prod.splits)

lemma messages_save_settled: "messages (ui (save_settled i r w)) = messages (ui w)"
  by (simp add: save_settled_def Let_def handleSendMessage_resume_def split: option.splits)

lemma messages_elapse: "messages (ui (elapse dt w)) = messages (ui w)"
  by (simp add: elapse_def ui_timer_callbacks)

lemma messages_toggleChat: "messages (ui (toggleChat w)) = messages (ui w)"
  by (simp add: toggleChat_def setIsOpen_def messages_open_effect)

lemma messages_step:
  "\<not> store_delivery e \<Longrightarrow> messages (ui (step w e)) = messages (ui w)"
  by (cases e)
    (simp_all add: step_def handle_def messages_open_effect messages_handleSendMessage
      messages_save_settled messages_elapse messages_toggleChat handleInputChange_def)

lemma messages_run:
  "\<forall>e\<in>set es. \<not> store_delivery e \<Longrightarrow> messages (ui (run w es)) = messages (ui w)"
  unfolding run_def by (induction es arbitrary: w) (simp_all add: messages_step)

lemma step_remote_distinct:
  "distinct (map msg_id (messages (ui w))) \<Longrightarrow>
   distinct (map msg_id (messages (ui (step w (RemoteInsert new)))))"
  by (simp add: step_def handle_def messages_open_effect remote_insert_def
      remote_updaters_distinct)

lemma run_remote_distinct:
  "distinct (map msg_id (messages (ui w))) \<Longrightarrow>
   distinct (map msg_id (messages (ui (run w (map RemoteInsert evs)))))"
  unfolding run_def by (induction evs arbitrary: w) (simp_all add: step_remote_distinct)

subsection \<open>The error that is stored\<close>

lemma error_remote_updaters:
  "error (foldl (\<lambda>st h. st\<lparr>messages := onRemoteInsert (messages st) new\<rparr>) st hs) = error st"
  by (induction hs arbitrary: st) simp_all

lemma error_open_effect:
  "error (ui w) \<noteq> Some [] \<Longrightarrow> error (ui (open_effect w)) \<noteq> Some []"
  by (simp add: open_effect_def Let_def subscribe_def fetchMessages_def fetchMessages_start_def
      removeChannel_def split: option.splits)

lemma error_handle:
  "error (ui w) \<noteq> Some [] \<Longrightarrow> error (ui (handle e w)) \<noteq> Some []"
proof (cases e)
  case ToggleChat
  assume "error (ui w) \<noteq> Some []"
  then show ?thesis
    unfolding ToggleChat by (simp add: handle_def toggleChat_def setIsOpen_def error_open_effect)
next
  case (FetchSettled r)
  assume "error (ui w) \<noteq> Some []"
  then show ?thesis
    unfolding FetchSettled
    by (simp add: handle_def fetch_settled_def fetchMessages_settle_def fetch_failed_text_def
        fetch_unexpected_text_def split: fetch_response.splits option.splits)
qed (simp_all add: handle_def elapse_def ui_timer_callbacks handleInputChange_def
    handleSendMessage_def saveMessageToSupabase_def save_settled_def Let_def
    handleSendMessage_resume_def
    remote_insert_def error_remote_updaters split: option.splits prod.splits)

lemma error_run:
  "error (ui w) \<noteq> Some [] \<Longrightarrow> error (ui (run w es)) \<noteq> Some []"
  unfolding run_def
  by (induction es arbitrary: w) (simp_all add: step_def error_open_effect error_handle)

lemma error_reachable:
  "truthy (error (ui (run mounted es))) \<longleftrightarrow> error (ui (run mounted es)) \<noteq> None"
proof -
  have "error (ui mounted) \<noteq> Some []"
    by (simp add: mounted_def unmounted_def open_effect_def initial_state_def)
  then have "error (ui (run mounted es)) \<noteq> Some []"
    by (rule error_run)
  then show ?thesis
    by (cases "error (ui (run mounted es))") (simp_all add: truthy_def)
qed

subsection \<open>Sending\<close>

lemma handleSendMessage_empty:
  "trim (inputValue (ui w)) = [] \<Longrightarrow> handleSendMessage w = w"
  by (simp add: handleSendMessage_def saveMessageToSupabase_def handleSendMessage_start_def)

lemma handleSendMessage_nonempty:
  "trim (inputValue (ui w)) \<noteq> [] \<Longrightarrow>
   handleSendMessage w =
     w\<lparr>calls := calls w @
         [(clock w, Insert MESSAGES_TABLE
             \<lparr>row_text = trim (inputValue (ui w)), row_sender = user_sender,
              row_timestamp = clock w\<rparr>)],
       saves := saves w @ [Some (trim (inputValue (ui w)))]\<rparr>"
  by (simp add: handleSendMessage_def saveMessageToSupabase_def handleSendMessage_start_def
      Let_def)

lemma saves_timer_callbacks:
  "saves (foldl timer_callback w ts) = saves w @ replicate (length ts) None"
  by (induction ts arbitrary: w)
    (simp_all add: timer_callback_def saveMessageToSupabase_def Let_def
      replicate_app_Cons_same)

subsection \<open>The subscription lifecycle\<close>

lemma timer_callbacks_frame:
  "effect_deps (foldl timer_callback w ts) = effect_deps w
   \<and> cleanup (foldl timer_callback w ts) = cleanup w
   \<and> channels (foldl timer_callback w ts) = channels w
   \<and> next_channel (foldl timer_callback w ts) = next_channel w
   \<and> count_calls is_select (foldl timer_callback w ts) = count_calls is_select w
   \<and> count_calls is_subscribe (foldl timer_callback w ts) = count_calls is_subscribe w
   \<and> count_calls is_remove (foldl timer_callback w ts) = count_calls is_remove w"
  by (induction ts arbitrary: w)
    (simp_all add: timer_callback_def saveMessageToSupabase_def Let_def count_calls_def)

lemma lifecycle_inv_frame:
  assumes "effect_deps v = effect_deps w" and "isOpen (ui v) = isOpen (ui w)"
    and "cleanup v = cleanup w" and "channels v = channels w"
    and "next_channel v = next_channel w"
    and "count_calls is_select v = count_calls is_select w"
    and "count_calls is_subscribe v = count_calls is_subscribe w"
    and "count_calls is_remove v = count_calls is_remove w"
  shows "lifecycle_inv v = lifecycle_inv w"
  using assms by (simp add: lifecycle_inv_def)

lemma count_calls_timers:
  "count_calls P (w\<lparr>timers := ts\<rparr>) = count_calls P w"
  "count_calls P (w\<lparr>clock := c\<rparr>) = count_calls P w"
  by (simp_all add: count_calls_def)

lemma lifecycle_inv_elapse: "lifecycle_inv (elapse dt w) = lifecycle_inv w"
  by (rule lifecycle_inv_frame)
    (simp_all add: elapse_def timer_callbacks_frame ui_timer_callbacks count_calls_timers)

lemma lifecycle_inv_send: "lifecycle_inv (handleSendMessage w) = lifecycle_inv w"
  by (rule lifecycle_inv_frame)
    (simp_all add: handleSendMessage_def saveMessageToSupabase_def count_calls_def
      split: option.splits prod.splits)

lemma lifecycle_inv_save: "lifecycle_inv (save_settled i r w) = lifecycle_inv w"
  by (rule lifecycle_inv_frame)
    (simp_all add: save_settled_def Let_def count_calls_def handleSendMessage_resume_def
      split: option.splits)

lemma lifecycle_inv_fetch: "lifecycle_inv (fetch_settled r w) = lifecycle_inv w"
  by (rule lifecycle_inv_frame)
    (simp_all add: fetch_settled_def count_calls_def fetchMessages_settle_def
      split: fetch_response.splits option.splits)

lemma isOpen_remote_updaters:
  "isOpen (foldl (\<lambda>st h. st\<lparr>messages := onRemoteInsert (messages st) new\<rparr>) st hs) = isOpen st"
  by (induction hs arbitrary: st) simp_all

lemma lifecycle_inv_remote: "lifecycle_inv (remote_insert new w) = lifecycle_inv w"
  by (rule lifecycle_inv_frame)
    (simp_all add: remote_insert_def count_calls_def isOpen_remote_updaters)

lemma lifecycle_inv_input:
  "lifecycle_inv (w\<lparr>ui := handleInputChange v (ui w)\<rparr>) = lifecycle_inv w"
  by (rule lifecycle_inv_frame) (simp_all add: count_calls_def handleInputChange_def)

lemma toggleChat_closed:
  assumes "lifecycle_inv w" and "\<not> isOpen (ui w)"
  shows "toggleChat w =
     w\<lparr>ui := (ui w)\<lparr>isOpen := True, loading := True, error := None\<rparr>,
       calls := calls w @
         [(clock w, Select MESSAGES_TABLE ''*'' ''timestamp'' True),
          (clock w, Subscribe ''chat-messages'' ''INSERT'' ''public'' MESSAGES_TABLE (next_channel w))],
       fetches := Suc (fetches w),
       channels := [next_channel w],
       next_channel := Suc (next_channel w),
       cleanup := Some (next_channel w),
       effect_deps := Some True\<rparr>"
  using assms
  by (simp add: lifecycle_inv_def toggleChat_def setIsOpen_def open_effect_def Let_def
      subscribe_def fetchMessages_def fetchMessages_start_def)

lemma toggleChat_open:
  assumes "lifecycle_inv w" and "isOpen (ui w)"
  shows "toggleChat w =
     w\<lparr>ui := (ui w)\<lparr>isOpen := False\<rparr>,
       calls := calls w @ [(clock w, RemoveChannel (next_channel w - 1))],
       channels := [],
       cleanup := None,
       effect_deps := Some False\<rparr>"
  using assms
  by (simp add: lifecycle_inv_def toggleChat_def setIsOpen_def open_effect_def Let_def
      removeChannel_def)

lemma lifecycle_inv_toggle: "lifecycle_inv w \<Longrightarrow> lifecycle_inv (toggleChat w)"
proof (cases "isOpen (ui w)")
  case True
  assume inv: "lifecycle_inv w"
  show ?thesis
    unfolding toggleChat_open [OF inv True]
    using inv True by (auto simp: lifecycle_inv_def count_calls_def)
next
  case False
  assume inv: "lifecycle_inv w"
  show ?thesis
    unfolding toggleChat_closed [OF inv False]
    using inv False by (auto simp: lifecycle_inv_def count_calls_def)
qed

lemma lifecycle_inv_handle: "lifecycle_inv w \<Longrightarrow> lifecycle_inv (handle e w)"
  by (cases e)
    (simp_all add: handle_def lifecycle_inv_elapse lifecycle_inv_toggle lifecycle_inv_input
      lifecycle_inv_send lifecycle_inv_fetch lifecycle_inv_save lifecycle_inv_remote)

lemma lifecycle_inv_step: "lifecycle_inv w \<Longrightarrow> lifecycle_inv (step w e)"
proof -
  assume "lifecycle_inv w"
  then have h: "lifecycle_inv (handle e w)"
    by (rule lifecycle_inv_handle)
  then have "open_effect (handle e w) = handle e w"
    by (simp add: lifecycle_inv_def open_effect_committed)
  with h show ?thesis
    by (simp add: step_def)
qed

lemma lifecycle_inv_mounted: "lifecycle_inv mounted"
  by (simp add: lifecycle_inv_def mounted_def unmounted_def open_effect_def initial_state_def
      count_calls_def)

lemma lifecycle_inv_run: "lifecycle_inv w \<Longrightarrow> lifecycle_inv (run w es)"
  unfolding run_def by (induction es arbitrary: w) (simp_all add: lifecycle_inv_step)

lemma lifecycle_inv_reachable: "lifecycle_inv (run mounted es)"
  by (rule lifecycle_inv_run) (rule lifecycle_inv_mounted)

subsection \<open>Timers and the calls they issue\<close>

lemma timer_inv_frame:
  "timers v = timers w \<Longrightarrow> clock v = clock w \<Longrightarrow> timer_inv v = timer_inv w"
  by (simp add: timer_inv_def)

lemma timer_callbacks_sorted:
  assumes "sorted (map fst ts)" and "\<forall>t\<in>set ts. clock v \<le> fst t"
  shows "calls (foldl timer_callback v ts) = calls v @ map bot_reply_call ts"
  using assms
proof (induction ts arbitrary: v)
  case Nil
  then show ?case by simp
next
  case (Cons t ts)
  have now: "max (clock v) (fst t) = fst t"
    using Cons.prems(2) by (simp add: max_def)
  have fired: "timer_callback v t =
      v\<lparr>clock := fst t, calls := calls v @ [bot_reply_call t], saves := saves v @ [None]\<rparr>"
    by (simp add: timer_callback_def saveMessageToSupabase_def Let_def now bot_reply_call_def)
  have later: "\<forall>u\<in>set ts. clock (timer_callback v t) \<le> fst u"
    using Cons.prems(1) by (simp add: fired)
  have "calls (foldl timer_callback (timer_callback v t) ts) =
      calls (timer_callback v t) @ map bot_reply_call ts"
    using Cons.prems(1) later by (intro Cons.IH) simp_all
  then show ?case
    by (simp add: fired)
qed

lemma timers_timer_callbacks: "timers (foldl timer_callback w ts) = timers w"
  by (induction ts arbitrary: w)
    (simp_all add: timer_callback_def saveMessageToSupabase_def Let_def)

lemma console_timer_callbacks: "console (foldl timer_callback w ts) = console w"
  by (induction ts arbitrary: w)
    (simp_all add: timer_callback_def saveMessageToSupabase_def Let_def)

lemma elapse_fields:
  "clock (elapse dt w) = clock w + dt"
  "timers (elapse dt w) = filter (\<lambda>t. \<not> fst t \<le> clock w + dt) (timers w)"
  "console (elapse dt w) = console w"
  "ui (elapse dt w) = ui w"
  by (simp_all add: elapse_def timers_timer_callbacks console_timer_callbacks ui_timer_callbacks)

lemma elapse_calls:
  assumes "timer_inv w"
  shows "calls (elapse dt w) =
     calls w @ map bot_reply_call (filter (\<lambda>t. fst t \<le> clock w + dt) (timers w))"
proof -
  have "sorted (map fst (filter (\<lambda>t. fst t \<le> clock w + dt) (timers w)))"
    using assms by (simp add: timer_inv_def sorted_filter)
  moreover have "\<forall>t\<in>set (filter (\<lambda>t. fst t \<le> clock w + dt) (timers w)).
      clock (w\<lparr>timers := filter (\<lambda>t. \<not> fst t \<le> clock w + dt) (timers w)\<rparr>) \<le> fst t"
    using assms by (auto simp: timer_inv_def dest: less_imp_le)
  ultimately show ?thesis
    by (simp add: elapse_def timer_callbacks_sorted)
qed

lemma timer_inv_elapse: "timer_inv w \<Longrightarrow> timer_inv (elapse dt w)"
  by (auto simp: timer_inv_def elapse_fields sorted_filter)

lemma timer_inv_send: "timer_inv (handleSendMessage w) = timer_inv w"
  by (rule timer_inv_frame)
    (simp_all add: handleSendMessage_def saveMessageToSupabase_def
      split: option.splits prod.splits)

lemma timer_inv_save: "timer_inv w \<Longrightarrow> timer_inv (save_settled i r w)"
  by (auto simp: timer_inv_def save_settled_def Let_def sorted_append
      split: option.splits)

lemma timer_inv_fetch: "timer_inv (fetch_settled r w) = timer_inv w"
  by (rule timer_inv_frame) (simp_all add: fetch_settled_def)

lemma timer_inv_remote: "timer_inv (remote_insert new w) = timer_inv w"
  by (rule timer_inv_frame) (simp_all add: remote_insert_def)

lemma timer_inv_open_effect: "timer_inv (open_effect w) = timer_inv w"
  by (rule timer_inv_frame)
    (simp_all add: open_effect_def Let_def subscribe_def fetchMessages_def removeChannel_def
      split: option.splits)

lemma timer_inv_toggle: "timer_inv (toggleChat w) = timer_inv w"
  by (simp add: toggleChat_def setIsOpen_def timer_inv_open_effect)
    (simp add: timer_inv_def)

lemma timer_inv_handle: "timer_inv w \<Longrightarrow> timer_inv (handle e w)"
  by (cases e)
    (simp_all add: handle_def timer_inv_elapse timer_inv_toggle timer_inv_send
      timer_inv_fetch timer_inv_save timer_inv_remote, simp add: timer_inv_def)

lemma timer_inv_step: "timer_inv w \<Longrightarrow> timer_inv (step w e)"
  by (simp add: step_def timer_inv_open_effect timer_inv_handle)

lemma timer_inv_run: "timer_inv w \<Longrightarrow> timer_inv (run w es)"
  unfolding run_def by (induction es arbitrary: w) (simp_all add: timer_inv_step)

lemma timer_inv_reachable: "timer_inv (run mounted es)"
  by (rule timer_inv_run)
    (simp add: timer_inv_def mounted_def unmounted_def open_effect_def initial_state_def)

lemma elapse_saves:
  "saves (elapse dt w) =
     saves w @ replicate (length (filter (\<lambda>t. fst t \<le> clock w + dt) (timers w))) None"
  by (simp add: elapse_def saves_timer_callbacks)

lemma save_settled_fields:
  assumes "i < length (saves w)" and "saves w ! i = Some currentInput"
  shows "timers (save_settled i r w) = timers w @ [(clock w + 1000, currentInput)]"
    and "calls (save_settled i r w) = calls w"
    and "clock (save_settled i r w) = clock w"
    and "console (save_settled i r w) = console w @ saveMessageToSupabase_settle r"
    and "error (ui (save_settled i r w)) = error (ui w)"
  using assms by (simp_all add: save_settled_def Let_def handleSendMessage_resume_def)

lemma send_and_wait_pending:
  assumes "trim (inputValue (ui w)) \<noteq> []"
  shows "length (saves w) < length (saves (elapse d (handleSendMessage w)))"
    and "saves (elapse d (handleSendMessage w)) ! length (saves w)
           = Some (trim (inputValue (ui w)))"
  using assms by (simp_all add: elapse_saves handleSendMessage_nonempty nth_append)

lemma send_and_wait_calls_inv:
  assumes inv: "timer_inv w" and draft: "trim (inputValue (ui w)) \<noteq> []"
  shows "calls (send_and_wait w d r dt) =
     calls w @
     [(clock w, Insert MESSAGES_TABLE
         \<lparr>row_text = trim (inputValue (ui w)), row_sender = user_sender,
          row_timestamp = clock w\<rparr>)] @
     map bot_reply_call (filter (\<lambda>t. fst t \<le> clock w + d) (timers w)) @
     map bot_reply_call
       (filter (\<lambda>t. clock w + d < fst t \<and> fst t \<le> clock w + d + dt) (timers w)) @
     (if 1000 \<le> dt then [bot_reply_call (clock w + d + 1000, trim (inputValue (ui w)))]
      else [])"
proof -
  define w1 where "w1 = handleSendMessage w"
  define w2 where "w2 = elapse d w1"
  define w3 where "w3 = save_settled (length (saves w)) r w2"
  have w1: "calls w1 = calls w @
      [(clock w, Insert MESSAGES_TABLE
         \<lparr>row_text = trim (inputValue (ui w)), row_sender = user_sender,
          row_timestamp = clock w\<rparr>)]"
    "timers w1 = timers w" "clock w1 = clock w"
    unfolding w1_def using draft by (simp_all add: handleSendMessage_nonempty)
  have inv1: "timer_inv w1"
    unfolding w1_def using inv by (simp add: timer_inv_send)
  have w2: "calls w2 = calls w1 @
      map bot_reply_call (filter (\<lambda>t. fst t \<le> clock w + d) (timers w))"
    "timers w2 = filter (\<lambda>t. \<not> fst t \<le> clock w + d) (timers w)"
    "clock w2 = clock w + d"
    unfolding w2_def using elapse_calls [OF inv1, of d] by (simp_all add: elapse_fields w1)
  have inv2: "timer_inv w2"
    unfolding w2_def using inv1 by (rule timer_inv_elapse)
  have pending: "length (saves w) < length (saves w2)"
    "saves w2 ! length (saves w) = Some (trim (inputValue (ui w)))"
    unfolding w2_def w1_def using send_and_wait_pending [OF draft] by simp_all
  have w3: "calls w3 = calls w2"
    "timers w3 = timers w2 @ [(clock w + d + 1000, trim (inputValue (ui w)))]"
    "clock w3 = clock w + d"
    unfolding w3_def using save_settled_fields [OF pending] by (simp_all add: w2)
  have inv3: "timer_inv w3"
    unfolding w3_def using inv2 by (rule timer_inv_save)
  have "calls (elapse dt w3) =
      calls w3 @ map bot_reply_call (filter (\<lambda>t. fst t \<le> clock w3 + dt) (timers w3))"
    using inv3 by (rule elapse_calls)
  moreover have "filter (\<lambda>t. fst t \<le> clock w + d + dt)
        (filter (\<lambda>t. \<not> fst t \<le> clock w + d) (timers w))
      = filter (\<lambda>t. clock w + d < fst t \<and> fst t \<le> clock w + d + dt) (timers w)"
    by (auto intro: filter_cong)
  ultimately have "calls (elapse dt w3) =
      calls w3 @
      map bot_reply_call
        (filter (\<lambda>t. clock w + d < fst t \<and> fst t \<le> clock w + d + dt) (timers w)) @
      (if 1000 \<le> dt then [bot_reply_call (clock w + d + 1000, trim (inputValue (ui w)))]
       else [])"
    by (simp add: w3 w2)
  then show ?thesis
    by (simp add: send_and_wait_def w1_def [symmetric] w2_def [symmetric] w3_def [symmetric]
        w1 w2 w3)
qed

lemma send_and_wait_console_any:
  assumes "trim (inputValue (ui w)) \<noteq> []"
  shows "console (send_and_wait w d r dt) = console w @ saveMessageToSupabase_settle r"
    and "error (ui (send_and_wait w d r dt)) = error (ui w)"
proof -
  note pending = send_and_wait_pending [OF assms, of d]
  have "console (elapse d (handleSendMessage w)) = console w"
    and "error (ui (elapse d (handleSendMessage w))) = error (ui w)"
    using assms by (simp_all add: elapse_fields handleSendMessage_nonempty)
  then show "console (send_and_wait w d r dt) = console w @ saveMessageToSupabase_settle r"
    and "error (ui (send_and_wait w d r dt)) = error (ui w)"
    using save_settled_fields(4,5) [OF pending, of r]
    by (simp_all add: send_and_wait_def elapse_fields)
qed

section \<open>The realtime feed\<close>

text \<open>
  C1. Whatever sequence of insert events the realtime callback receives, duplicates
  included, no id occurs twice in the resulting message list: started on a list without
  repeated ids (the empty list in particular) the list stays without repeated ids, for
  the updater alone and for the component receiving the pushes on its channels; an event
  whose id is the id of a message of the list leaves the list as it is; an event with an id
  not yet in the list makes the list longer by exactly one, also when the same row is
  delivered twice.
\<close>

theorem realtime_ids_unique:
  "(distinct (map msg_id ms) \<longrightarrow> distinct (map msg_id (foldl onRemoteInsert ms evs)))
   \<and> distinct (map msg_id (foldl onRemoteInsert [] evs))
   \<and> (distinct (map msg_id (messages (ui w))) \<longrightarrow>
        distinct (map msg_id (messages (ui (run w (map RemoteInsert evs))))))
   \<and> (msg_id e \<in> msg_id ` set ms \<longrightarrow> onRemoteInsert ms e = ms)
   \<and> (msg_id e \<notin> msg_id ` set ms \<longrightarrow>
        length (onRemoteInsert ms e) = length ms + 1
        \<and> length (foldl onRemoteInsert ms [e, e]) = length ms + 1)"
proof -
  have "distinct (map msg_id (foldl onRemoteInsert [] evs))"
    by (rule deliver_distinct) simp
  moreover have "msg_id e \<notin> msg_id ` set ms \<longrightarrow>
      length (foldl onRemoteInsert ms [e, e]) = length ms + 1"
    by (simp add: onRemoteInsert_twice) (simp add: onRemoteInsert_iff)
  ultimately show ?thesis
    by (simp add: deliver_distinct run_remote_distinct onRemoteInsert_iff)
qed

theorem realtime_ids_unique_witness:
  "distinct (map msg_id [row_hi])
   \<and> msg_id row_hi \<in> msg_id ` set [row_hi]
   \<and> msg_id row_yo \<notin> msg_id ` set [row_hi]
   \<and> distinct (map msg_id (foldl onRemoteInsert [row_hi] [row_yo, row_hi, row_yo]))
   \<and> distinct (map msg_id (messages (ui typed_hello)))
   \<and> messages (ui (run typed_hello (map RemoteInsert [row_yo, row_hi, row_yo])))
       = [row_hi, row_yo]
   \<and> onRemoteInsert [row_hi] row_hi = [row_hi]
   \<and> length (foldl onRemoteInsert [row_hi] [row_yo, row_yo]) = 2"
  using realtime_ids_unique [of "[row_hi]" "[row_yo, row_hi, row_yo]" typed_hello row_hi]
    realtime_ids_unique [of "[row_hi]" "[]" typed_hello row_yo]
  by (simp add: typed_hello_eq row_hi_def row_yo_def model_defs)

text \<open>
  C6, as stated, fails. A row that lacks an id is appended although the list holds an
  entry with the same sender, text and timestamp (under another id); and a row that lacks
  an id is dropped when the list holds any other row without id, whatever its sender, text
  and timestamp.
\<close>

theorem dedup_fallback_counterexample:
  "onRemoteInsert
       [\<lparr>msg_id = Some (Num 7), msg_text = of_ascii ''hi'', msg_sender = of_ascii ''user'',
         msg_timestamp = of_ascii ''T0''\<rparr>]
       \<lparr>msg_id = None, msg_text = of_ascii ''hi'', msg_sender = of_ascii ''user'',
        msg_timestamp = of_ascii ''T0''\<rparr>
     = [\<lparr>msg_id = Some (Num 7), msg_text = of_ascii ''hi'', msg_sender = of_ascii ''user'',
         msg_timestamp = of_ascii ''T0''\<rparr>,
        \<lparr>msg_id = None, msg_text = of_ascii ''hi'', msg_sender = of_ascii ''user'',
         msg_timestamp = of_ascii ''T0''\<rparr>]
   \<and> onRemoteInsert
       [\<lparr>msg_id = None, msg_text = of_ascii ''hi'', msg_sender = of_ascii ''user'',
         msg_timestamp = of_ascii ''T0''\<rparr>]
       \<lparr>msg_id = None, msg_text = of_ascii ''yo'', msg_sender = of_ascii ''bot'',
        msg_timestamp = of_ascii ''T1''\<rparr>
     = [\<lparr>msg_id = None, msg_text = of_ascii ''hi'', msg_sender = of_ascii ''user'',
         msg_timestamp = of_ascii ''T0''\<rparr>]"
  by (simp add: onRemoteInsert_def of_ascii_def)

text \<open>
  C6, amended. The realtime callback appends the row unless an entry with a strictly
  equal id exists, and that is the only test: a row without id is appended unless some
  entry has no id either. Sender, text and timestamp take no part in it; joined by
  hyphens they are the React key of a rendered entry whose id is absent or falsy, and the
  id itself is the key otherwise.
\<close>

theorem dedup_by_id_only:
  "onRemoteInsert ms new = (if \<exists>msg\<in>set ms. msg_id msg = msg_id new then ms else ms @ [new])
   \<and> (msg_id new = None \<longrightarrow>
        onRemoteInsert ms new = (if \<exists>msg\<in>set ms. msg_id msg = None then ms else ms @ [new]))
   \<and> (\<not> id_truthy (msg_id msg) \<longrightarrow>
        entry_key (message_entry msg) =
          Some (Str (msg_sender msg @ of_ascii ''-'' @ msg_text msg @ of_ascii ''-''
                     @ msg_timestamp msg)))
   \<and> (id_truthy (msg_id msg) \<longrightarrow> entry_key (message_entry msg) = msg_id msg)"
  by (auto simp: onRemoteInsert_iff message_entry_def message_key_def fallback_key_def
      id_truthy_def image_iff split: option.splits)

theorem dedup_by_id_only_witness:
  "msg_id (row_hi\<lparr>msg_id := None\<rparr>) = None
   \<and> \<not> id_truthy (msg_id (row_hi\<lparr>msg_id := None\<rparr>))
   \<and> id_truthy (msg_id row_yo)
   \<and> onRemoteInsert [row_hi] (row_hi\<lparr>msg_id := None\<rparr>) = [row_hi, row_hi\<lparr>msg_id := None\<rparr>]
   \<and> entry_key (message_entry (row_hi\<lparr>msg_id := None\<rparr>)) = Some (Str (of_ascii ''bot-hi-T0''))
   \<and> entry_key (message_entry row_yo) = Some (Num 2)"
  using dedup_by_id_only [of "[row_hi]" "row_hi\<lparr>msg_id := None\<rparr>" "row_hi\<lparr>msg_id := None\<rparr>"]
    dedup_by_id_only [of "[]" row_yo row_yo]
  by (simp add: row_hi_def row_yo_def id_truthy_def of_ascii_def)

section \<open>Fetching\<close>

text \<open>
  C4. \<^verbatim>\<open>fetchMessages\<close> first sets \<^verbatim>\<open>loading\<close> and clears \<^verbatim>\<open>error\<close>, and asks for all
  rows by ascending timestamp. When the answer carries data and no error, the messages
  are replaced by the data (by the empty list for \<^verbatim>\<open>null\<close>) and \<^verbatim>\<open>loading\<close> is reset.
  When the answer carries an error, or the query throws, \<^verbatim>\<open>error\<close> is set to a non-empty
  string, the messages are emptied and \<^verbatim>\<open>loading\<close> is reset. Whatever the answer, no
  call is issued, no timer is set and no query is left pending: nothing is retried.
\<close>

theorem fetch_outcomes:
  "ui (fetchMessages w) = (ui w)\<lparr>loading := True, error := None\<rparr>
   \<and> calls (fetchMessages w) = calls w @ [(clock w, Select ''messages'' ''*'' ''timestamp'' True)]
   \<and> ui (fetch_settled (FetchResolved (Some d) None) (fetchMessages w))
       = (ui w)\<lparr>messages := d, loading := False, error := None\<rparr>
   \<and> ui (fetch_settled (FetchResolved None None) (fetchMessages w))
       = (ui w)\<lparr>messages := [], loading := False, error := None\<rparr>
   \<and> ui (fetch_settled (FetchResolved data (Some e)) (fetchMessages w))
       = (ui w)\<lparr>messages := [], loading := False, error := Some fetch_failed_text\<rparr>
   \<and> ui (fetch_settled FetchThrown (fetchMessages w))
       = (ui w)\<lparr>messages := [], loading := False, error := Some fetch_unexpected_text\<rparr>
   \<and> truthy (Some fetch_failed_text) \<and> truthy (Some fetch_unexpected_text)
   \<and> calls (fetch_settled r (fetchMessages w)) = calls (fetchMessages w)
   \<and> timers (fetch_settled r (fetchMessages w)) = timers w
   \<and> fetches (fetch_settled r (fetchMessages w)) = fetches w"
  by (simp add: fetchMessages_def fetch_settled_def fetchMessages_settle_def
      fetchMessages_start_def truthy_def fetch_failed_text_def fetch_unexpected_text_def
      MESSAGES_TABLE_def)

theorem fetch_outcomes_witness:
  "messages (ui (fetch_settled (FetchResolved (Some [row_hi, row_yo]) None) (fetchMessages mounted)))
     = [row_hi, row_yo]
   \<and> error (ui (fetch_settled (FetchResolved None (Some (PgError []))) (fetchMessages mounted)))
     = Some fetch_failed_text
   \<and> length (calls (fetch_settled FetchThrown (fetchMessages mounted))) = 1"
  using fetch_outcomes [of mounted "[row_hi, row_yo]" None "PgError []" FetchThrown]
  by (simp add: mounted_def unmounted_def open_effect_def initial_state_def)

section \<open>Rendering\<close>

text \<open>
  C8. \<^verbatim>\<open>renderMessages\<close> decides in a fixed order. While loading it shows the loading
  placeholder: one entry with the loading sentence and neither sender nor time. Else, with
  an error set (a non-empty string, the only kind the component ever stores, whatever the
  events), the error placeholder: one entry with the bot's label and the error as text.
  Else, with no messages, the greeting: one entry with the bot's label, the greeting
  sentence and the time of rendering. Else one entry per message, in order, showing the
  sender label (the user's label for the sender \<^verbatim>\<open>user\<close>, the bot's otherwise), the
  text, and the timestamp. Both times are in parentheses and formatted by
  \<^verbatim>\<open>toLocaleTimeString\<close> asked for a 24-hour clock (\<^verbatim>\<open>hour12: false\<close>) and for
  two-digit hour and minute only.
\<close>

theorem render_priority:
  "(loading st \<longrightarrow>
      renderMessages st t =
        [\<lparr>entry_key = None, sender_span = None,
          entry_text =
            [0xCC44, 0xD305, 0x0020, 0xAE30, 0xB85D, 0xC744, 0x0020, 0xBD88, 0xB7EC, 0xC624,
             0xB294, 0x0020, 0xC911, 0xC785, 0xB2C8, 0xB2E4, 0x002E, 0x002E, 0x002E],
          timestamp_span = None\<rparr>])
   \<and> (\<not> loading st \<and> truthy (error st) \<longrightarrow>
        renderMessages st t =
          [\<lparr>entry_key = None, sender_span = Some (''message-sender-bot'', [0xBD07, 0x003A]),
            entry_text = the (error st), timestamp_span = None\<rparr>])
   \<and> (\<not> loading st \<and> error st = Some e \<and> e \<noteq> [] \<longrightarrow>
        renderMessages st t =
          [\<lparr>entry_key = None, sender_span = Some (''message-sender-bot'', [0xBD07, 0x003A]),
            entry_text = e, timestamp_span = None\<rparr>])
   \<and> (\<not> loading st \<and> \<not> truthy (error st) \<and> messages st = [] \<longrightarrow>
        renderMessages st t =
          [\<lparr>entry_key = None, sender_span = Some (''message-sender-bot'', [0xBD07, 0x003A]),
            entry_text =
              [0xC548, 0xB155, 0xD558, 0xC138, 0xC694, 0x0021, 0x0020, 0xACE0, 0xC804,
               0x0020, 0xC2A4, 0xD0C0, 0xC77C, 0x0020, 0xCC44, 0xD305, 0x0020, 0xC704,
               0xC82F, 0xC785, 0xB2C8, 0xB2E4, 0x002E, 0x0020, 0xBB34, 0xC5C7, 0xC744,
               0x0020, 0xB3C4, 0xC640, 0xB4DC, 0xB9B4, 0xAE4C, 0xC694, 0x003F],
            timestamp_span =
              Some [Lit [0x0028], ToLocaleTimeString (Current t) \<lparr>hour12 = False, hour = ''2-digit'', minute = ''2-digit''\<rparr>,
                    Lit [0x0029]]\<rparr>])
   \<and> (\<not> loading st \<and> \<not> truthy (error st) \<and> messages st \<noteq> [] \<longrightarrow>
        renderMessages st t = map message_entry (messages st))
   \<and> sender_span (message_entry msg) =
        Some (if msg_sender msg = [0x0075, 0x0073, 0x0065, 0x0072]
              then (''message-sender-user'', [0xB098, 0x003A])
              else (''message-sender-bot'', [0xBD07, 0x003A]))
   \<and> entry_text (message_entry msg) = msg_text msg
   \<and> timestamp_span (message_entry msg) =
        Some [Lit [0x0028],
              ToLocaleTimeString (Parsed (msg_timestamp msg)) \<lparr>hour12 = False, hour = ''2-digit'', minute = ''2-digit''\<rparr>,
              Lit [0x0029]]
   \<and> (truthy (error (ui (run mounted es))) \<longleftrightarrow> error (ui (run mounted es)) \<noteq> None)"
  using error_reachable [of es]
  by (simp add: renderMessages_def truthy_def loading_entry_def loading_text_def
      error_entry_def greeting_entry_def greeting_text_def message_entry_def time_span_def
      clock_opts_def user_span_def bot_span_def user_label_def bot_label_def user_sender_def
      of_ascii_def)

theorem render_priority_witness:
  "loading initial_state
   \<and> entry_text (hd (renderMessages initial_state 5)) =
       [0xCC44, 0xD305, 0x0020, 0xAE30, 0xB85D, 0xC744, 0x0020, 0xBD88, 0xB7EC, 0xC624,
        0xB294, 0x0020, 0xC911, 0xC785, 0xB2C8, 0xB2E4, 0x002E, 0x002E, 0x002E]
   \<and> sender_span (hd (renderMessages initial_state 5)) = None
   \<and> renderMessages (initial_state\<lparr>loading := False, error := Some fetch_failed_text\<rparr>) 5 =
       [\<lparr>entry_key = None, sender_span = Some (''message-sender-bot'', [0xBD07, 0x003A]),
         entry_text = fetch_failed_text, timestamp_span = None\<rparr>]
   \<and> entry_text (hd (renderMessages (initial_state\<lparr>loading := False\<rparr>) 5)) =
       [0xC548, 0xB155, 0xD558, 0xC138, 0xC694, 0x0021, 0x0020, 0xACE0, 0xC804, 0x0020,
        0xC2A4, 0xD0C0, 0xC77C, 0x0020, 0xCC44, 0xD305, 0x0020, 0xC704, 0xC82F, 0xC785,
        0xB2C8, 0xB2E4, 0x002E, 0x0020, 0xBB34, 0xC5C7, 0xC744, 0x0020, 0xB3C4, 0xC640,
        0xB4DC, 0xB9B4, 0xAE4C, 0xC694, 0x003F]
   \<and> timestamp_span (hd (renderMessages (initial_state\<lparr>loading := False\<rparr>) 5)) =
       Some [Lit [0x0028], ToLocaleTimeString (Current 5) \<lparr>hour12 = False, hour = ''2-digit'', minute = ''2-digit''\<rparr>,
             Lit [0x0029]]
   \<and> renderMessages (ui typed_hello) 5 =
       [\<lparr>entry_key = Some (Num 1), sender_span = Some (''message-sender-bot'', [0xBD07, 0x003A]),
         entry_text = [0x0068, 0x0069],
         timestamp_span =
           Some [Lit [0x0028], ToLocaleTimeString (Parsed [0x0054, 0x0030]) \<lparr>hour12 = False, hour = ''2-digit'', minute = ''2-digit''\<rparr>,
                 Lit [0x0029]]\<rparr>]"
  using render_priority [of initial_state 5 "[]" row_hi]
    render_priority [of "initial_state\<lparr>loading := False, error := Some fetch_failed_text\<rparr>" 5
      fetch_failed_text row_hi]
    render_priority [of "initial_state\<lparr>loading := False\<rparr>" 5 "[]" row_hi]
    render_priority [of "ui typed_hello" 5 "[]" row_hi]
  by (simp add: typed_hello_eq initial_state_def truthy_def fetch_failed_text_def row_hi_def
      of_ascii_def message_entry_def message_key_def id_truthy_def)

section \<open>Sending\<close>

text \<open>
  C2, as stated, fails: with a draft that is not empty after trimming,
  \<^verbatim>\<open>handleSendMessage\<close> issues the insert of the user message while \<^verbatim>\<open>loading\<close> is
  true, and also while \<^verbatim>\<open>error\<close> is set.
\<close>

theorem send_guard_counterexample:
  "loading (ui reopened_hello)
   \<and> calls (handleSendMessage reopened_hello) =
       calls reopened_hello @
       [(0, Insert ''messages''
           \<lparr>row_text = of_ascii ''hello'', row_sender = of_ascii ''user'', row_timestamp = 0\<rparr>)]
   \<and> error (ui failed_hello) = Some fetch_unexpected_text
   \<and> calls (handleSendMessage failed_hello) =
       calls failed_hello @
       [(0, Insert ''messages''
           \<lparr>row_text = of_ascii ''hello'', row_sender = of_ascii ''user'', row_timestamp = 0\<rparr>)]"
  by (simp add: failed_hello_def reopened_hello_def typed_hello_eq model_defs)

text \<open>
  C2, amended. \<^verbatim>\<open>handleSendMessage\<close> does nothing at all when the draft is empty
  after trimming: no call is issued and no field changes. That is its only guard: with a
  draft that is not empty after trimming it issues the insert of the user message whatever
  \<^verbatim>\<open>loading\<close> and \<^verbatim>\<open>error\<close> are. Those two act in the view: the form is rendered only
  while the widget is open, its text input is disabled when \<^verbatim>\<open>loading\<close> or \<^verbatim>\<open>error\<close>
  is set, and its send button is disabled when the trimmed draft is empty or
  \<^verbatim>\<open>loading\<close> or \<^verbatim>\<open>error\<close> is set.
\<close>

theorem send_guard:
  "(trim (inputValue (ui w)) = [] \<longrightarrow> handleSendMessage w = w)
   \<and> (trim (inputValue (ui w)) \<noteq> [] \<longrightarrow>
        calls (handleSendMessage w) =
          calls w @ [(clock w, Insert ''messages''
             \<lparr>row_text = trim (inputValue (ui w)), row_sender = of_ascii ''user'',
              row_timestamp = clock w\<rparr>)])
   \<and> (render st t = Expanded win \<longrightarrow>
        (send_disabled win \<longleftrightarrow> trim (inputValue st) = [] \<or> loading st \<or> truthy (error st))
        \<and> (input_disabled win \<longleftrightarrow> loading st \<or> truthy (error st)))
   \<and> (render st t = Collapsed \<longleftrightarrow> \<not> isOpen st)"
  by (auto simp: handleSendMessage_empty handleSendMessage_nonempty render_def
      MESSAGES_TABLE_def user_sender_def)

theorem send_guard_witness:
  "trim (inputValue (ui mounted)) = []
   \<and> handleSendMessage mounted = mounted
   \<and> trim (inputValue (ui typed_hello)) = of_ascii ''hello''
   \<and> calls (handleSendMessage typed_hello) =
       calls typed_hello @ [(0, Insert ''messages''
          \<lparr>row_text = of_ascii ''hello'', row_sender = of_ascii ''user'', row_timestamp = 0\<rparr>)]
   \<and> render (ui typed_hello) 0 =
       Expanded \<lparr>messages_area = [message_entry row_hi], input_value = of_ascii '' hello '',
                 input_disabled = False, send_disabled = False\<rparr>
   \<and> render (ui mounted) 0 = Collapsed"
  using send_guard [of mounted "ui mounted" 0
      "\<lparr>messages_area = [], input_value = [], input_disabled = True, send_disabled = True\<rparr>"]
    send_guard [of typed_hello "ui typed_hello" 0
      "\<lparr>messages_area = [message_entry row_hi], input_value = of_ascii '' hello '',
        input_disabled = False, send_disabled = False\<rparr>"]
  by (simp add: typed_hello_eq trim_hello render_def renderMessages_def truthy_def)
    (simp add: mounted_def unmounted_def open_effect_def initial_state_def trim_def of_ascii_def)

text \<open>
  C5. Sending never touches the message list: it is the same after
  \<^verbatim>\<open>handleSendMessage\<close> has issued its insert, after the answer of an insert has come
  and the handler has gone on, and after the timer callback of the bot reply has run; and
  over any sequence of events none of which is a delivery by the store (a pushed row or
  the answer of a query) the list stays what it was.
\<close>

theorem submit_keeps_messages:
  "messages (ui (handleSendMessage w)) = messages (ui w)
   \<and> messages (ui (save_settled i r w)) = messages (ui w)
   \<and> messages (ui (elapse dt w)) = messages (ui w)
   \<and> messages (ui (send_and_wait w d r dt)) = messages (ui w)
   \<and> ((\<forall>e\<in>set es. \<not> store_delivery e) \<longrightarrow> messages (ui (run w es)) = messages (ui w))"
  by (simp add: messages_handleSendMessage messages_save_settled messages_elapse messages_run
      send_and_wait_def)

theorem submit_keeps_messages_witness:
  "\<not> store_delivery SendMessage \<and> \<not> store_delivery (Elapse 250)
   \<and> \<not> store_delivery (SaveSettled 0 (SaveResolved None)) \<and> \<not> store_delivery (Elapse 1000)
   \<and> length (calls (run typed_hello
        [SendMessage, Elapse 250, SaveSettled 0 (SaveResolved None), Elapse 1000])) = 4
   \<and> messages (ui (run typed_hello
        [SendMessage, Elapse 250, SaveSettled 0 (SaveResolved None), Elapse 1000])) = [row_hi]"
  using submit_keeps_messages [of typed_hello 0 "SaveResolved None" 0 0
      "[SendMessage, Elapse 250, SaveSettled 0 (SaveResolved None), Elapse 1000]"]
  by (simp add: typed_hello_eq) (simp add: model_defs)

text \<open>
  C7, as stated, fails: when \<^verbatim>\<open>handleSendMessage\<close> has issued the insert of the user
  message and is waiting for its answer, the draft is still in the input, and it stays
  there however long the answer takes.
\<close>

theorem draft_cleared_counterexample:
  "inputValue (ui (handleSendMessage typed_hello)) = of_ascii '' hello ''
   \<and> saves (handleSendMessage typed_hello) = [Some (of_ascii ''hello'')]
   \<and> calls (handleSendMessage typed_hello) =
       calls typed_hello @
       [(0, Insert ''messages''
           \<lparr>row_text = of_ascii ''hello'', row_sender = of_ascii ''user'', row_timestamp = 0\<rparr>)]
   \<and> inputValue (ui (elapse 5000 (handleSendMessage typed_hello))) = of_ascii '' hello ''"
  by (simp add: typed_hello_eq model_defs)

text \<open>
  C7, amended. For a draft that is not empty after trimming, the input is cleared when
  the insert of the user message has returned, whatever its answer (success, error or
  exception): not on confirmation of success, and not before the call completes. Until
  then the input keeps the draft.
\<close>

theorem draft_cleared_on_completion:
  "inputValue (ui (handleSendMessage w)) = inputValue (ui w)
   \<and> (i < length (saves w) \<and> saves w ! i = Some currentInput \<longrightarrow>
        inputValue (ui (save_settled i r w)) = [])
   \<and> (trim (inputValue (ui w)) \<noteq> [] \<longrightarrow>
        inputValue (ui (elapse d (handleSendMessage w))) = inputValue (ui w)
        \<and> inputValue (ui (save_settled (length (saves w)) r (elapse d (handleSendMessage w)))) = [])"
proof -
  have a: "inputValue (ui (handleSendMessage w)) = inputValue (ui w)"
    by (simp add: handleSendMessage_def saveMessageToSupabase_def split: option.splits prod.splits)
  have b: "i < length (saves w) \<and> saves w ! i = Some currentInput \<longrightarrow>
        inputValue (ui (save_settled i r w)) = []"
    by (simp add: save_settled_def Let_def handleSendMessage_resume_def)
  have c: "inputValue (ui (elapse d v)) = inputValue (ui v)" for v
    by (simp add: elapse_def ui_timer_callbacks)
  have e: "trim (inputValue (ui w)) \<noteq> [] \<longrightarrow>
        inputValue (ui (save_settled (length (saves w)) r (elapse d (handleSendMessage w)))) = []"
    by (simp add: save_settled_def Let_def handleSendMessage_resume_def elapse_def
        saves_timer_callbacks handleSendMessage_nonempty nth_append)
  from a b c e show ?thesis by simp
qed

theorem draft_cleared_on_completion_witness:
  "trim (inputValue (ui typed_hello)) = of_ascii ''hello''
   \<and> saves (handleSendMessage typed_hello) ! 0 = Some (of_ascii ''hello'')
   \<and> inputValue (ui (elapse 250 (handleSendMessage typed_hello))) = of_ascii '' hello ''
   \<and> inputValue (ui (save_settled 0 SaveThrown (handleSendMessage typed_hello))) = []
   \<and> inputValue (ui (save_settled 0 (SaveResolved None) (elapse 250 (handleSendMessage typed_hello))))
       = []"
  using draft_cleared_on_completion [of typed_hello 0 "of_ascii ''hello''" "SaveResolved None" 250]
    draft_cleared_on_completion [of "handleSendMessage typed_hello" 0 "of_ascii ''hello''"
      SaveThrown 0]
  by (simp add: typed_hello_eq model_defs)

text \<open>
  C3, as stated, fails: the timer of 1000 ms is set when the insert of the user message
  has returned, not when it is issued. With the draft \<^verbatim>\<open>hello\<close> sent at time 0 and an
  answer that takes 250 ms, the insert of the bot message is issued at 1250, that is
  1250 ms after the first call.
\<close>

theorem bot_reply_delay_counterexample:
  "calls (send_and_wait typed_hello 250 (SaveResolved None) 1000) =
     calls typed_hello @
     [(0, Insert ''messages'' \<lparr>row_text = [0x0068, 0x0065, 0x006C, 0x006C, 0x006F], row_sender = [0x0075, 0x0073, 0x0065, 0x0072], row_timestamp = 0\<rparr>),
      (1250, Insert ''messages''
         \<lparr>row_text =
            [0x0022, 0x0068, 0x0065, 0x006C, 0x006C, 0x006F, 0x0022, 0x0020, 0xB77C, 0xACE0,
             0x0020, 0xC785, 0xB825, 0xD558, 0xC168, 0xC2B5, 0xB2C8, 0xB2E4, 0x002E, 0x0020,
             0xC800, 0xB294, 0x0020, 0xACE0, 0xC804, 0xC801, 0xC778, 0x0020, 0xBD07, 0xC785,
             0xB2C8, 0xB2E4, 0x002E],
          row_sender = [0x0062, 0x006F, 0x0074], row_timestamp = 1250\<rparr>)]"
  by (simp add: typed_hello_eq model_defs bot_suffix_def)

text \<open>
  C3, amended. In every state the mounted component can reach, for a draft that is not
  empty after trimming, \<^verbatim>\<open>handleSendMessage\<close> issues an insert with the trimmed draft as
  text and the sender \<^verbatim>\<open>user\<close>. The answer of that insert comes \<open>d\<close> ms later; exactly
  1000 ms (logical time) after the answer, not earlier, a second insert is issued with the
  sender \<^verbatim>\<open>bot\<close> and the text of the template: a double quote, the trimmed draft, a
  double quote, a space and the fixed sentence. The calls issued meanwhile are these two
  and, between them, the inserts of the replies that were pending already, each at the due
  time of its timer: first those due before the answer, then those due after it. For
  \<^verbatim>\<open>hello\<close> the text is the one the claim gives, listed here by code units.
\<close>

theorem bot_reply_after_completion:
  "(trim (inputValue (ui w)) \<noteq> [] \<longrightarrow>
      calls (handleSendMessage w) =
        calls w @
        [(clock w, Insert ''messages''
            \<lparr>row_text = trim (inputValue (ui w)), row_sender = [0x0075, 0x0073, 0x0065, 0x0072], row_timestamp = clock w\<rparr>)])
   \<and> (trim (inputValue (ui (run mounted es))) \<noteq> [] \<longrightarrow>
      calls (send_and_wait (run mounted es) d r dt) =
        calls (run mounted es) @
        [(clock (run mounted es), Insert ''messages''
            \<lparr>row_text = trim (inputValue (ui (run mounted es))), row_sender = [0x0075, 0x0073, 0x0065, 0x0072], row_timestamp = clock (run mounted es)\<rparr>)] @
        map (\<lambda>t. (fst t, Insert ''messages''
            \<lparr>row_text = [0x0022] @ snd t @
               [0x0022, 0x0020, 0xB77C, 0xACE0, 0x0020, 0xC785, 0xB825, 0xD558, 0xC168,
                0xC2B5, 0xB2C8, 0xB2E4, 0x002E, 0x0020, 0xC800, 0xB294, 0x0020, 0xACE0,
                0xC804, 0xC801, 0xC778, 0x0020, 0xBD07, 0xC785, 0xB2C8, 0xB2E4, 0x002E],
             row_sender = [0x0062, 0x006F, 0x0074], row_timestamp = fst t\<rparr>))
          (filter (\<lambda>t. fst t \<le> clock (run mounted es) + d) (timers (run mounted es))) @
        map (\<lambda>t. (fst t, Insert ''messages''
            \<lparr>row_text = [0x0022] @ snd t @
               [0x0022, 0x0020, 0xB77C, 0xACE0, 0x0020, 0xC785, 0xB825, 0xD558, 0xC168,
                0xC2B5, 0xB2C8, 0xB2E4, 0x002E, 0x0020, 0xC800, 0xB294, 0x0020, 0xACE0,
                0xC804, 0xC801, 0xC778, 0x0020, 0xBD07, 0xC785, 0xB2C8, 0xB2E4, 0x002E],
             row_sender = [0x0062, 0x006F, 0x0074], row_timestamp = fst t\<rparr>))
          (filter (\<lambda>t. clock (run mounted es) + d < fst t \<and> fst t \<le> clock (run mounted es) + d + dt)
             (timers (run mounted es))) @
        (if 1000 \<le> dt
         then [(clock (run mounted es) + d + 1000, Insert ''messages''
                 \<lparr>row_text = [0x0022] @ trim (inputValue (ui (run mounted es))) @
                    [0x0022, 0x0020, 0xB77C, 0xACE0, 0x0020, 0xC785, 0xB825, 0xD558, 0xC168,
                     0xC2B5, 0xB2C8, 0xB2E4, 0x002E, 0x0020, 0xC800, 0xB294, 0x0020, 0xACE0,
                     0xC804, 0xC801, 0xC778, 0x0020, 0xBD07, 0xC785, 0xB2C8, 0xB2E4, 0x002E],
                  row_sender = [0x0062, 0x006F, 0x0074], row_timestamp = clock (run mounted es) + d + 1000\<rparr>)]
         else []))
   \<and> bot_text [0x0068, 0x0065, 0x006C, 0x006C, 0x006F] =
        [0x0022, 0x0068, 0x0065, 0x006C, 0x006C, 0x006F, 0x0022, 0x0020, 0xB77C, 0xACE0,
         0x0020, 0xC785, 0xB825, 0xD558, 0xC168, 0xC2B5, 0xB2C8, 0xB2E4, 0x002E, 0x0020,
         0xC800, 0xB294, 0x0020, 0xACE0, 0xC804, 0xC801, 0xC778, 0x0020, 0xBD07, 0xC785,
         0xB2C8, 0xB2E4, 0x002E]"
proof -
  have "timer_inv (run mounted es)"
    by (rule timer_inv_reachable)
  then show ?thesis
    by (simp add: send_and_wait_calls_inv handleSendMessage_nonempty MESSAGES_TABLE_def
        user_sender_def bot_reply_call_def botResponse_def bot_sender_def bot_text_def
        bot_suffix_def of_ascii_def)
qed

theorem bot_reply_after_completion_witness:
  "trim (inputValue (ui typed_hello)) = [0x0068, 0x0065, 0x006C, 0x006C, 0x006F]
   \<and> calls (send_and_wait typed_hello 0 (SaveResolved None) 1000) =
       calls typed_hello @
       [(0, Insert ''messages'' \<lparr>row_text = [0x0068, 0x0065, 0x006C, 0x006C, 0x006F], row_sender = [0x0075, 0x0073, 0x0065, 0x0072], row_timestamp = 0\<rparr>),
        (1000, Insert ''messages''
           \<lparr>row_text =
              [0x0022, 0x0068, 0x0065, 0x006C, 0x006C, 0x006F, 0x0022, 0x0020, 0xB77C,
               0xACE0, 0x0020, 0xC785, 0xB825, 0xD558, 0xC168, 0xC2B5, 0xB2C8, 0xB2E4,
               0x002E, 0x0020, 0xC800, 0xB294, 0x0020, 0xACE0, 0xC804, 0xC801, 0xC778,
               0x0020, 0xBD07, 0xC785, 0xB2C8, 0xB2E4, 0x002E],
            row_sender = [0x0062, 0x006F, 0x0074], row_timestamp = 1000\<rparr>)]
   \<and> trim (inputValue (ui typed_yo)) = [0x0079, 0x006F]
   \<and> timers typed_yo = [(1000, [0x0068, 0x0065, 0x006C, 0x006C, 0x006F])]
   \<and> calls (send_and_wait typed_yo 100 (SaveResolved None) 1000) =
       calls typed_yo @
       [(400, Insert ''messages'' \<lparr>row_text = [0x0079, 0x006F], row_sender = [0x0075, 0x0073, 0x0065, 0x0072], row_timestamp = 400\<rparr>),
        (1000, Insert ''messages''
           \<lparr>row_text =
              [0x0022, 0x0068, 0x0065, 0x006C, 0x006C, 0x006F, 0x0022, 0x0020, 0xB77C,
               0xACE0, 0x0020, 0xC785, 0xB825, 0xD558, 0xC168, 0xC2B5, 0xB2C8, 0xB2E4,
               0x002E, 0x0020, 0xC800, 0xB294, 0x0020, 0xACE0, 0xC804, 0xC801, 0xC778,
               0x0020, 0xBD07, 0xC785, 0xB2C8, 0xB2E4, 0x002E],
            row_sender = [0x0062, 0x006F, 0x0074], row_timestamp = 1000\<rparr>),
        (1500, Insert ''messages''
           \<lparr>row_text =
              [0x0022, 0x0079, 0x006F, 0x0022, 0x0020, 0xB77C, 0xACE0, 0x0020, 0xC785,
               0xB825, 0xD558, 0xC168, 0xC2B5, 0xB2C8, 0xB2E4, 0x002E, 0x0020, 0xC800,
               0xB294, 0x0020, 0xACE0, 0xC804, 0xC801, 0xC778, 0x0020, 0xBD07, 0xC785,
               0xB2C8, 0xB2E4, 0x002E],
            row_sender = [0x0062, 0x006F, 0x0074], row_timestamp = 1500\<rparr>)]
   \<and> calls (send_and_wait typed_yo 700 SaveThrown 999) =
       calls typed_yo @
       [(400, Insert ''messages'' \<lparr>row_text = [0x0079, 0x006F], row_sender = [0x0075, 0x0073, 0x0065, 0x0072], row_timestamp = 400\<rparr>),
        (1000, Insert ''messages''
           \<lparr>row_text =
              [0x0022, 0x0068, 0x0065, 0x006C, 0x006C, 0x006F, 0x0022, 0x0020, 0xB77C,
               0xACE0, 0x0020, 0xC785, 0xB825, 0xD558, 0xC168, 0xC2B5, 0xB2C8, 0xB2E4,
               0x002E, 0x0020, 0xC800, 0xB294, 0x0020, 0xACE0, 0xC804, 0xC801, 0xC778,
               0x0020, 0xBD07, 0xC785, 0xB2C8, 0xB2E4, 0x002E],
            row_sender = [0x0062, 0x006F, 0x0074], row_timestamp = 1000\<rparr>)]"
  using bot_reply_after_completion [of typed_hello
      "[ToggleChat, FetchSettled (FetchResolved (Some [row_hi]) None),
        InputChange (of_ascii '' hello '')]" 0 "SaveResolved None" 1000,
      folded typed_hello_def]
    bot_reply_after_completion [of typed_yo
      "[ToggleChat, FetchSettled (FetchResolved (Some [row_hi]) None),
        InputChange (of_ascii '' hello ''), SendMessage, SaveSettled 0 (SaveResolved None),
        InputChange (of_ascii ''yo''), Elapse 400]" 100 "SaveResolved None" 1000,
      folded typed_yo_def]
    bot_reply_after_completion [of typed_yo
      "[ToggleChat, FetchSettled (FetchResolved (Some [row_hi]) None),
        InputChange (of_ascii '' hello ''), SendMessage, SaveSettled 0 (SaveResolved None),
        InputChange (of_ascii ''yo''), Elapse 400]" 700 SaveThrown 999,
      folded typed_yo_def]
  by (simp add: typed_hello_eq typed_yo_eq model_defs bot_suffix_def)

text \<open>
  C10. \<^verbatim>\<open>saveMessageToSupabase\<close> catches every failure of the insert: it logs it and
  returns. So when the answer of the insert of the user message comes, be it an error or
  an exception, the suspended handler sets the timer of 1000 ms holding the trimmed input,
  issues no call and leaves \<^verbatim>\<open>error\<close> alone. In every state the mounted component can
  reach, for a draft that is not empty after trimming and a failed insert of the user
  message, the insert of the bot message is issued 1000 ms after the failed attempt has
  completed, not earlier, with the sender \<^verbatim>\<open>bot\<close> and the text of the template around
  the user's trimmed input; the failure is logged and \<^verbatim>\<open>error\<close> stays what it was. The
  other calls issued meanwhile are the inserts of the replies that were pending already.
\<close>

theorem bot_reply_after_failed_save:
  "(i < length (saves w) \<and> saves w ! i = Some currentInput \<longrightarrow>
      timers (save_settled i r w) = timers w @ [(clock w + 1000, currentInput)]
      \<and> console (save_settled i r w) = console w @ saveMessageToSupabase_settle r
      \<and> calls (save_settled i r w) = calls w
      \<and> error (ui (save_settled i r w)) = error (ui w))
   \<and> saveMessageToSupabase_settle (SaveResolved (Some e)) = [Error_saving]
   \<and> saveMessageToSupabase_settle SaveThrown = [Unexpected_error_saving]
   \<and> (trim (inputValue (ui (run mounted es))) \<noteq> [] \<and> r \<noteq> SaveResolved None \<longrightarrow>
        calls (send_and_wait (run mounted es) d r dt) =
          calls (run mounted es) @
          [(clock (run mounted es), Insert ''messages''
              \<lparr>row_text = trim (inputValue (ui (run mounted es))), row_sender = [0x0075, 0x0073, 0x0065, 0x0072], row_timestamp = clock (run mounted es)\<rparr>)] @
          map (\<lambda>t. (fst t, Insert ''messages''
              \<lparr>row_text = [0x0022] @ snd t @
                 [0x0022, 0x0020, 0xB77C, 0xACE0, 0x0020, 0xC785, 0xB825, 0xD558, 0xC168,
                  0xC2B5, 0xB2C8, 0xB2E4, 0x002E, 0x0020, 0xC800, 0xB294, 0x0020, 0xACE0,
                  0xC804, 0xC801, 0xC778, 0x0020, 0xBD07, 0xC785, 0xB2C8, 0xB2E4, 0x002E],
               row_sender = [0x0062, 0x006F, 0x0074], row_timestamp = fst t\<rparr>))
            (filter (\<lambda>t. fst t \<le> clock (run mounted es) + d) (timers (run mounted es))) @
          map (\<lambda>t. (fst t, Insert ''messages''
              \<lparr>row_text = [0x0022] @ snd t @
                 [0x0022, 0x0020, 0xB77C, 0xACE0, 0x0020, 0xC785, 0xB825, 0xD558, 0xC168,
                  0xC2B5, 0xB2C8, 0xB2E4, 0x002E, 0x0020, 0xC800, 0xB294, 0x0020, 0xACE0,
                  0xC804, 0xC801, 0xC778, 0x0020, 0xBD07, 0xC785, 0xB2C8, 0xB2E4, 0x002E],
               row_sender = [0x0062, 0x006F, 0x0074], row_timestamp = fst t\<rparr>))
            (filter (\<lambda>t. clock (run mounted es) + d < fst t \<and> fst t \<le> clock (run mounted es) + d + dt)
               (timers (run mounted es))) @
          (if 1000 \<le> dt
           then [(clock (run mounted es) + d + 1000, Insert ''messages''
                   \<lparr>row_text = [0x0022] @ trim (inputValue (ui (run mounted es))) @
                      [0x0022, 0x0020, 0xB77C, 0xACE0, 0x0020, 0xC785, 0xB825, 0xD558,
                       0xC168, 0xC2B5, 0xB2C8, 0xB2E4, 0x002E, 0x0020, 0xC800, 0xB294,
                       0x0020, 0xACE0, 0xC804, 0xC801, 0xC778, 0x0020, 0xBD07, 0xC785,
                       0xB2C8, 0xB2E4, 0x002E],
                    row_sender = [0x0062, 0x006F, 0x0074], row_timestamp = clock (run mounted es) + d + 1000\<rparr>)]
           else [])
        \<and> console (send_and_wait (run mounted es) d r dt) =
            console (run mounted es) @ saveMessageToSupabase_settle r
        \<and> console (send_and_wait (run mounted es) d r dt) \<noteq> console (run mounted es)
        \<and> error (ui (send_and_wait (run mounted es) d r dt)) = error (ui (run mounted es)))"
proof -
  have a: "i < length (saves w) \<and> saves w ! i = Some currentInput \<longrightarrow>
      timers (save_settled i r w) = timers w @ [(clock w + 1000, currentInput)]
      \<and> console (save_settled i r w) = console w @ saveMessageToSupabase_settle r
      \<and> calls (save_settled i r w) = calls w
      \<and> error (ui (save_settled i r w)) = error (ui w)"
    by (simp add: save_settled_def Let_def handleSendMessage_resume_def)
  have b: "r \<noteq> SaveResolved None \<Longrightarrow> saveMessageToSupabase_settle r \<noteq> []"
    by (cases r) (auto simp: saveMessageToSupabase_settle_def split: option.splits)
  have c: "timer_inv (run mounted es)"
    by (rule timer_inv_reachable)
  from a b c show ?thesis
    by (simp add: send_and_wait_calls_inv send_and_wait_console_any MESSAGES_TABLE_def
        user_sender_def bot_reply_call_def botResponse_def bot_sender_def bot_text_def
        bot_suffix_def of_ascii_def saveMessageToSupabase_settle_def)
qed

theorem bot_reply_after_failed_save_witness:
  "saves (handleSendMessage typed_hello) ! 0 = Some [0x0068, 0x0065, 0x006C, 0x006C, 0x006F]
   \<and> timers (save_settled 0 SaveThrown (handleSendMessage typed_hello)) = [(1000, [0x0068, 0x0065, 0x006C, 0x006C, 0x006F])]
   \<and> console (save_settled 0 SaveThrown (handleSendMessage typed_hello))
       = [Unexpected_error_saving]
   \<and> trim (inputValue (ui typed_yo)) = [0x0079, 0x006F]
   \<and> calls (send_and_wait typed_yo 300 (SaveResolved (Some (PgError []))) 1000) =
       calls typed_yo @
       [(400, Insert ''messages'' \<lparr>row_text = [0x0079, 0x006F], row_sender = [0x0075, 0x0073, 0x0065, 0x0072], row_timestamp = 400\<rparr>),
        (1000, Insert ''messages''
           \<lparr>row_text =
              [0x0022, 0x0068, 0x0065, 0x006C, 0x006C, 0x006F, 0x0022, 0x0020, 0xB77C,
               0xACE0, 0x0020, 0xC785, 0xB825, 0xD558, 0xC168, 0xC2B5, 0xB2C8, 0xB2E4,
               0x002E, 0x0020, 0xC800, 0xB294, 0x0020, 0xACE0, 0xC804, 0xC801, 0xC778,
               0x0020, 0xBD07, 0xC785, 0xB2C8, 0xB2E4, 0x002E],
            row_sender = [0x0062, 0x006F, 0x0074], row_timestamp = 1000\<rparr>),
        (1700, Insert ''messages''
           \<lparr>row_text =
              [0x0022, 0x0079, 0x006F, 0x0022, 0x0020, 0xB77C, 0xACE0, 0x0020, 0xC785,
               0xB825, 0xD558, 0xC168, 0xC2B5, 0xB2C8, 0xB2E4, 0x002E, 0x0020, 0xC800,
               0xB294, 0x0020, 0xACE0, 0xC804, 0xC801, 0xC778, 0x0020, 0xBD07, 0xC785,
               0xB2C8, 0xB2E4, 0x002E],
            row_sender = [0x0062, 0x006F, 0x0074], row_timestamp = 1700\<rparr>)]
   \<and> console (send_and_wait typed_yo 300 (SaveResolved (Some (PgError []))) 1000)
       = [Error_saving]
   \<and> error (ui (send_and_wait typed_yo 300 (SaveResolved (Some (PgError []))) 1000)) = None"
  using bot_reply_after_failed_save [of 0 "handleSendMessage typed_hello" "[0x0068, 0x0065, 0x006C, 0x006C, 0x006F]"
      SaveThrown "PgError []" "[]" 0 0]
    bot_reply_after_failed_save [of 0 typed_hello "[0x0068, 0x0065, 0x006C, 0x006C, 0x006F]"
      "SaveResolved (Some (PgError []))" "PgError []"
      "[ToggleChat, FetchSettled (FetchResolved (Some [row_hi]) None),
        InputChange (of_ascii '' hello ''), SendMessage, SaveSettled 0 (SaveResolved None),
        InputChange (of_ascii ''yo''), Elapse 400]" 300 1000,
      folded typed_yo_def]
  by (simp add: typed_hello_eq typed_yo_eq model_defs bot_suffix_def)

section \<open>Opening and closing\<close>

text \<open>
  C9. After any sequence of events on the mounted component: exactly one channel is
  subscribed while the widget is open and none while it is closed, and as many queries
  have been issued as channels subscribed. The effect is not run again by a render that
  leaves \<^verbatim>\<open>isOpen\<close> as it was, so opening a widget that is open changes nothing: no
  second subscription, no second query. Opening a closed widget issues exactly one query
  and one subscription, which is then the only one active; closing an open widget removes
  exactly the channel that is subscribed, leaves none, and issues no query.
\<close>

theorem open_close_lifecycle:
  "length (channels (run mounted es)) = (if isOpen (ui (run mounted es)) then 1 else 0)
   \<and> count_calls is_select (run mounted es) = count_calls is_subscribe (run mounted es)
   \<and> open_effect (run mounted es) = run mounted es
   \<and> (isOpen (ui (run mounted es)) \<longrightarrow>
        setIsOpen (\<lambda>prevIsOpen. True) (run mounted es) = run mounted es)
   \<and> (\<not> isOpen (ui (run mounted es)) \<longrightarrow>
        calls (toggleChat (run mounted es)) =
          calls (run mounted es) @
            [(clock (run mounted es), Select ''messages'' ''*'' ''timestamp'' True),
             (clock (run mounted es),
              Subscribe ''chat-messages'' ''INSERT'' ''public'' ''messages''
                (next_channel (run mounted es)))]
        \<and> channels (toggleChat (run mounted es)) = [next_channel (run mounted es)]
        \<and> isOpen (ui (toggleChat (run mounted es)))
        \<and> calls (toggleChat (toggleChat (run mounted es))) =
          calls (run mounted es) @
            [(clock (run mounted es), Select ''messages'' ''*'' ''timestamp'' True),
             (clock (run mounted es),
              Subscribe ''chat-messages'' ''INSERT'' ''public'' ''messages''
                (next_channel (run mounted es))),
             (clock (run mounted es), RemoveChannel (next_channel (run mounted es)))])
   \<and> (isOpen (ui (run mounted es)) \<longrightarrow>
        calls (toggleChat (run mounted es)) =
          calls (run mounted es) @
            map (\<lambda>h. (clock (run mounted es), RemoveChannel h)) (channels (run mounted es))
        \<and> channels (toggleChat (run mounted es)) = []
        \<and> \<not> isOpen (ui (toggleChat (run mounted es))))"
proof -
  define w where "w = run mounted es"
  have inv: "lifecycle_inv w"
    unfolding w_def by (rule lifecycle_inv_reachable)
  have a: "length (channels w) = (if isOpen (ui w) then 1 else 0)"
    using inv by (simp add: lifecycle_inv_def)
  have b: "count_calls is_select w = count_calls is_subscribe w"
    using inv by (simp add: lifecycle_inv_def)
  have c: "open_effect w = w"
    using inv by (simp add: lifecycle_inv_def open_effect_committed)
  have c': "isOpen (ui w) \<longrightarrow> setIsOpen (\<lambda>prevIsOpen. True) w = w"
    using inv by (auto simp: lifecycle_inv_def setIsOpen_def open_effect_committed)
  have d: "\<not> isOpen (ui w) \<longrightarrow>
        calls (toggleChat w) =
          calls w @ [(clock w, Select ''messages'' ''*'' ''timestamp'' True),
             (clock w, Subscribe ''chat-messages'' ''INSERT'' ''public'' ''messages''
                (next_channel w))]
        \<and> channels (toggleChat w) = [next_channel w]
        \<and> isOpen (ui (toggleChat w))"
    using toggleChat_closed [OF inv] by (simp add: MESSAGES_TABLE_def)
  have d': "\<not> isOpen (ui w) \<longrightarrow>
        calls (toggleChat (toggleChat w)) =
          calls w @ [(clock w, Select ''messages'' ''*'' ''timestamp'' True),
             (clock w, Subscribe ''chat-messages'' ''INSERT'' ''public'' ''messages''
                (next_channel w)),
             (clock w, RemoveChannel (next_channel w))]"
  proof
    assume closed: "\<not> isOpen (ui w)"
    have inv': "lifecycle_inv (toggleChat w)"
      using inv by (rule lifecycle_inv_toggle)
    have opened: "isOpen (ui (toggleChat w))"
      using d closed by simp
    show "calls (toggleChat (toggleChat w)) =
          calls w @ [(clock w, Select ''messages'' ''*'' ''timestamp'' True),
             (clock w, Subscribe ''chat-messages'' ''INSERT'' ''public'' ''messages''
                (next_channel w)),
             (clock w, RemoveChannel (next_channel w))]"
      unfolding toggleChat_open [OF inv' opened]
      unfolding toggleChat_closed [OF inv closed]
      by (simp add: MESSAGES_TABLE_def)
  qed
  have e: "isOpen (ui w) \<longrightarrow>
        calls (toggleChat w) = calls w @ map (\<lambda>h. (clock w, RemoveChannel h)) (channels w)
        \<and> channels (toggleChat w) = []
        \<and> \<not> isOpen (ui (toggleChat w))"
    using toggleChat_open [OF inv] inv by (simp add: lifecycle_inv_def)
  from a b c c' d d' e show ?thesis
    unfolding w_def by simp
qed

theorem open_close_lifecycle_witness:
  "\<not> isOpen (ui (run mounted []))
   \<and> calls (toggleChat (run mounted [])) =
       [(0, Select ''messages'' ''*'' ''timestamp'' True),
        (0, Subscribe ''chat-messages'' ''INSERT'' ''public'' ''messages'' 0)]
   \<and> channels (toggleChat (run mounted [])) = [0]
   \<and> isOpen (ui (run mounted [ToggleChat, Elapse 70]))
   \<and> setIsOpen (\<lambda>prevIsOpen. True) (run mounted [ToggleChat, Elapse 70])
       = run mounted [ToggleChat, Elapse 70]
   \<and> calls (toggleChat (run mounted [ToggleChat, Elapse 70])) =
       [(0, Select ''messages'' ''*'' ''timestamp'' True),
        (0, Subscribe ''chat-messages'' ''INSERT'' ''public'' ''messages'' 0),
        (70, RemoveChannel 0)]
   \<and> channels (toggleChat (run mounted [ToggleChat, Elapse 70])) = []"
  using open_close_lifecycle [of "[]"] open_close_lifecycle [of "[ToggleChat, Elapse 70]"]
  by (simp add: model_defs)

end
